theory Spec2Isabelle
  imports Main "HOL-Library.Char_ord" "HOL-Library.List_Lexorder" "HOL-Library.AList"
begin

section \<open>Strings and path strings\<close>

text \<open>
  A Python string is a sequence of code points. The program's strings are modelled as
  \<^typ>\<open>string\<close>, a character standing for the code point of its number: the type holds the
  code points below 256 (Latin-1), and the functions below are those of Python on such
  strings. Code points from 256 on are outside the type; name normalisation, the one
  function a claim states for every string, is also modelled on code points in general,
  further down.

  \<open>isspace\<close> is the whitespace class used both by \<^verbatim>\<open>str.strip()\<close> and by the regular
  expression class \<^verbatim>\<open>\s\<close> on \<^verbatim>\<open>str\<close> patterns: TAB, LF, VT, FF, CR, the four separators
  0x1C..0x1F, the space, NEL (0x85) and the no-break space (0xA0).
\<close>

definition isspace :: "char \<Rightarrow> bool" where
  "isspace c = (c \<in> set [CHR 0x09, CHR 0x0A, CHR 0x0B, CHR 0x0C, CHR 0x0D,
                          CHR 0x1C, CHR 0x1D, CHR 0x1E, CHR 0x1F, CHR '' '',
                          CHR 0x85, CHR 0xA0])"

text \<open>
  \<^verbatim>\<open>str.lower()\<close> on one code point below 256: the letters A to Z and the letters 0xC0 to
  0xDE, the multiplication sign 0xD7 excepted, have their lower case 32 further on.
\<close>

definition lower_char :: "char \<Rightarrow> char" where
  "lower_char c = (let n = (of_char c :: nat) in
                   if (65 \<le> n \<and> n \<le> 90) \<or> (192 \<le> n \<and> n \<le> 222 \<and> n \<noteq> 215)
                   then char_of (n + 32) else c)"

text \<open>\<^verbatim>\<open>s.lower()\<close>, which on these strings works code point by code point.\<close>

definition lower :: "string \<Rightarrow> string" where
  "lower s = map lower_char s"

text \<open>\<^verbatim>\<open>s.strip()\<close>\<close>

definition strip :: "string \<Rightarrow> string" where
  "strip s = rev (dropWhile isspace (rev (dropWhile isspace s)))"

text \<open>\<^verbatim>\<open>re.sub(r'[._]', ' ', name)\<close>\<close>

definition sub_separators :: "string \<Rightarrow> string" where
  "sub_separators name = map (\<lambda>c. if c = CHR ''.'' \<or> c = CHR ''_'' then CHR '' '' else c) name"

text \<open>\<^verbatim>\<open>re.sub(r'\s+', ' ', s)\<close>: every maximal run of whitespace becomes one space.\<close>

function collapse_spaces :: "string \<Rightarrow> string" where
  "collapse_spaces [] = []"
| "collapse_spaces (c # cs) =
     (if isspace c then CHR '' '' # collapse_spaces (dropWhile isspace cs)
      else c # collapse_spaces cs)"
  by pat_completeness auto
termination
  by (relation "measure length") (auto simp: length_dropWhile_le less_Suc_eq_le)

text \<open>
  \<^verbatim>\<open>
  def normalize_name(name):
      clean = re.sub(r'[._]', ' ', name).strip().lower()
      return re.sub(r'\s+', ' ', clean)
  \<close>
\<close>

definition normalize_name :: "string \<Rightarrow> string" where
  "normalize_name name = collapse_spaces (lower (strip (sub_separators name)))"




subsection \<open>\<^verbatim>\<open>os.path\<close> on POSIX\<close>

text \<open>
  \<^verbatim>\<open>
  def join(a, b):
      if b.startswith('/'): return b
      elif not a or a.endswith('/'): return a + b
      else: return a + '/' + b
  \<close>
\<close>

definition os_path_join :: "string \<Rightarrow> string \<Rightarrow> string" where
  "os_path_join a b =
     (if b \<noteq> [] \<and> hd b = CHR ''/'' then b
      else if a = [] \<or> last a = CHR ''/'' then a @ b
      else a @ ''/'' @ b)"

text \<open>\<^verbatim>\<open>basename(p) = p[p.rfind('/') + 1:]\<close>\<close>

definition os_path_basename :: "string \<Rightarrow> string" where
  "os_path_basename p = rev (takeWhile (\<lambda>c. c \<noteq> CHR ''/'') (rev p))"

text \<open>\<^verbatim>\<open>s.split('/')\<close>\<close>

fun split_sep :: "string \<Rightarrow> string list" where
  "split_sep [] = [[]]"
| "split_sep (c # cs) =
     (if c = CHR ''/'' then [] # split_sep cs
      else (case split_sep cs of [] \<Rightarrow> [[c]] | w # ws \<Rightarrow> (c # w) # ws))"

text \<open>
  The component loop of \<^verbatim>\<open>normpath\<close> on an absolute path: empty components and \<^verbatim>\<open>.\<close>
  are dropped, \<^verbatim>\<open>..\<close> removes the component before it (and is dropped at the root).
\<close>

definition norm_step :: "string list \<Rightarrow> string \<Rightarrow> string list" where
  "norm_step new_comps part =
     (if part = [] \<or> part = ''.'' then new_comps
      else if part = ''..'' then butlast new_comps
      else new_comps @ [part])"

definition is_abs :: "string \<Rightarrow> bool" where
  "is_abs p = (p \<noteq> [] \<and> hd p = CHR ''/'')"

text \<open>
  The components of the absolute, normalised form of a path string, relative paths being
  taken from the working directory. The file tree is addressed by these components.
  Symbolic links are not modelled, and \<^verbatim>\<open>..\<close> is resolved on the string, which is what the
  file system does when the directory it steps out of exists.
\<close>

definition resolve :: "string \<Rightarrow> string \<Rightarrow> string list" where
  "resolve wd p = foldl norm_step [] (split_sep (if is_abs p then p else os_path_join wd p))"

text \<open>\<^verbatim>\<open>'/'.join(comps)\<close>\<close>

fun join_sep :: "string list \<Rightarrow> string" where
  "join_sep [] = []"
| "join_sep [x] = x"
| "join_sep (x # y # ys) = x @ ''/'' @ join_sep (y # ys)"

text \<open>
  \<^verbatim>\<open>os.path.abspath\<close>: \<^verbatim>\<open>normpath(join(os.getcwd(), p))\<close>. POSIX \<^verbatim>\<open>normpath\<close> keeps exactly
  two leading slashes.
\<close>

definition os_path_abspath :: "string \<Rightarrow> string \<Rightarrow> string" where
  "os_path_abspath wd p =
     (let q = (if is_abs p then p else os_path_join wd p);
          initial = (if take 2 q = ''//'' \<and> take 3 q \<noteq> ''///'' then ''//'' else ''/'')
      in initial @ join_sep (resolve wd p))"

fun common_prefix_len :: "'a list \<Rightarrow> 'a list \<Rightarrow> nat" where
  "common_prefix_len (x # xs) (y # ys) = (if x = y then Suc (common_prefix_len xs ys) else 0)"
| "common_prefix_len _ _ = 0"

text \<open>
  \<^verbatim>\<open>
  def relpath(path, start):
      start_list = [x for x in abspath(start).split('/') if x]
      path_list = [x for x in abspath(path).split('/') if x]
      i = len(commonprefix([start_list, path_list]))
      rel_list = ['..'] * (len(start_list) - i) + path_list[i:]
      if not rel_list: return '.'
      return join(*rel_list)
  \<close>
\<close>

definition os_path_relpath :: "string \<Rightarrow> string \<Rightarrow> string \<Rightarrow> string" where
  "os_path_relpath wd path start =
     (let start_list = resolve wd start;
          path_list = resolve wd path;
          i = common_prefix_len start_list path_list;
          rel_list = replicate (length start_list - i) ''..'' @ drop i path_list
      in if rel_list = [] then ''.'' else join_sep rel_list)"

section \<open>The file system\<close>

text \<open>
  The platform primitives the program consumes (\<^verbatim>\<open>os\<close>, \<^verbatim>\<open>shutil\<close>) act on a tree of
  directories and regular files. A file carries its size in bytes (a Python integer) and
  a tag standing for its contents. A directory lists its entries in the order \<^verbatim>\<open>os.listdir\<close> reports them.
\<close>

datatype node = File (fsize: int) (fdata: nat) | Dir (dir_entries: "(string \<times> node) list")

fun is_dir :: "node \<Rightarrow> bool" where
  "is_dir (Dir _) = True"
| "is_dir (File _ _) = False"

fun lookup :: "node \<Rightarrow> string list \<Rightarrow> node option" where
  "lookup n [] = Some n"
| "lookup (File _ _) (x # xs) = None"
| "lookup (Dir es) (x # xs) = (case map_of es x of None \<Rightarrow> None | Some c \<Rightarrow> lookup c xs)"

text \<open>Storing a node under a name in an existing directory (replacing an entry of that name).\<close>

fun put :: "node \<Rightarrow> string list \<Rightarrow> node \<Rightarrow> node option" where
  "put n [] v = None"
| "put (File _ _) (x # xs) v = None"
| "put (Dir es) [x] v = Some (Dir (AList.update x v es))"
| "put (Dir es) (x # y # ys) v =
     (case map_of es x of
        None \<Rightarrow> None
      | Some c \<Rightarrow> map_option (\<lambda>c'. Dir (AList.update x c' es)) (put c (y # ys) v))"

text \<open>Unlinking the entry at a path.\<close>

fun unlink :: "node \<Rightarrow> string list \<Rightarrow> node option" where
  "unlink n [] = None"
| "unlink (File _ _) (x # xs) = None"
| "unlink (Dir es) [x] = (if map_of es x = None then None else Some (Dir (AList.delete x es)))"
| "unlink (Dir es) (x # y # ys) =
     (case map_of es x of
        None \<Rightarrow> None
      | Some c \<Rightarrow> map_option (\<lambda>c'. Dir (AList.update x c' es)) (unlink c (y # ys)))"

text \<open>
  \<^verbatim>\<open>os.makedirs(name, exist_ok=True)\<close> on the tree: missing directories are created along
  the path; a regular file on the path makes it raise (\<open>None\<close>), before anything is created.
\<close>

fun mkdirs :: "node \<Rightarrow> string list \<Rightarrow> node option" where
  "mkdirs (File _ _) xs = None"
| "mkdirs (Dir es) [] = Some (Dir es)"
| "mkdirs (Dir es) (x # xs) =
     (case map_of es x of
        None \<Rightarrow> map_option (\<lambda>c'. Dir (es @ [(x, c')])) (mkdirs (Dir []) xs)
      | Some c \<Rightarrow> map_option (\<lambda>c'. Dir (AList.update x c' es)) (mkdirs c xs))"

text \<open>
  Messages printed by the program. Each constructor stands for one \<^verbatim>\<open>print\<close> of the
  source, with the values it interpolates.
\<close>

datatype event =
    ErrorSourceMissing string             \<comment> \<open>\<^verbatim>\<open>[ERROR] Source missing: {src}\<close>\<close>
  | AbortCollision string                 \<comment> \<open>\<^verbatim>\<open>[ABORT] Video collision: Target exists at {dst_path}\<close>\<close>
  | Moved string string                   \<comment> \<open>\<^verbatim>\<open>[MOVED] {src} -> {dst_path}\<close>\<close>
  | DryRunMv string string                \<comment> \<open>\<^verbatim>\<open>[DRY-RUN] mv {src} -> {dest_dir}/\<close>\<close>
  | CriticalErrorMoving string            \<comment> \<open>\<^verbatim>\<open>[CRITICAL ERROR] Failed moving {src}\<close>\<close>
  | Merged string string                  \<comment> \<open>\<^verbatim>\<open>[MERGED] {src} -> {dest_dir}/\<close>\<close>
  | DryRunRmMv string string              \<comment> \<open>\<^verbatim>\<open>[DRY-RUN] rm {dst_path} && mv {src} ...\<close>\<close>
  | ErrorMoving string                    \<comment> \<open>\<^verbatim>\<open>[ERROR] Moving {src}\<close>\<close>
  | Deleted string                        \<comment> \<open>\<^verbatim>\<open>[DELETED] {src}\<close>\<close>
  | DryRunRm string                       \<comment> \<open>\<^verbatim>\<open>[DRY-RUN] rm {src}\<close>\<close>
  | ErrorDeleting string                  \<comment> \<open>\<^verbatim>\<open>[ERROR] Deleting {src}\<close>\<close>
  | CleanupRemoved string                 \<comment> \<open>\<^verbatim>\<open>[CLEANUP] Removed empty dir: {root}\<close>\<close>
  | DryRunRmdir string                    \<comment> \<open>\<^verbatim>\<open>[DRY-RUN] rmdir {root} (If empty)\<close>\<close>
  | Processing string nat                 \<comment> \<open>\<^verbatim>\<open>Processing: {display_name} (Found on {n} disks)...\<close>\<close>
  | SkipNotice string                     \<comment> \<open>\<^verbatim>\<open>[!] {msg}\<close>\<close>
  | ConsolidatingTo string string         \<comment> \<open>\<^verbatim>\<open>-> Consolidating to: {target_disk}/{folder}\<close>\<close>
  | AbortMoveFailed nat nat               \<comment> \<open>\<^verbatim>\<open>[ABORT] Move failed for S{s}E{e}.\<close>\<close>
  | CleaningSource string                 \<comment> \<open>\<^verbatim>\<open>-> Cleaning source: {source_full_path}\<close>\<close>
  | Banner bool                           \<comment> \<open>\<^verbatim>\<open>--- Starting Consolidation Analysis ---\<close> and the mode line\<close>

text \<open>
  The environment of a run: the file tree, the working directory, the free bytes that
  \<^verbatim>\<open>shutil.disk_usage\<close> reports for the file system holding a path, and what has been printed.
  The free-space table is an input: the model does not recompute it when files move, so
  statements about a target decision are made for the state in which the decision is taken.
\<close>

record world =
  tree :: node
  cwd :: string
  disk_free :: "string list \<Rightarrow> int"
  stdout :: "event list"

text \<open>
  What a path string names. The empty string names nothing (\<^verbatim>\<open>os.path.exists('')\<close> is
  false and every call on it raises), and a path that ends with a slash names nothing
  when it leads to a regular file.
\<close>

definition node_at :: "world \<Rightarrow> string \<Rightarrow> node option" where
  "node_at w p =
     (if p = [] then None
      else (case lookup (tree w) (resolve (cwd w) p) of
              None \<Rightarrow> None
            | Some n \<Rightarrow> if last p = CHR ''/'' \<and> \<not> is_dir n then None else Some n))"

definition os_path_exists :: "world \<Rightarrow> string \<Rightarrow> bool" where
  "os_path_exists w p = (node_at w p \<noteq> None)"

definition os_path_isdir :: "world \<Rightarrow> string \<Rightarrow> bool" where
  "os_path_isdir w p = (case node_at w p of Some (Dir _) \<Rightarrow> True | _ \<Rightarrow> False)"

definition print :: "event \<Rightarrow> world \<Rightarrow> world" where
  "print e w = w\<lparr>stdout := stdout w @ [e]\<rparr>"

text \<open>\<^verbatim>\<open>os.listdir\<close>; \<open>None\<close> stands for \<^verbatim>\<open>OSError\<close>.\<close>

definition os_listdir :: "world \<Rightarrow> string \<Rightarrow> string list option" where
  "os_listdir w p = (case node_at w p of Some (Dir es) \<Rightarrow> Some (map fst es) | _ \<Rightarrow> None)"

text \<open>\<^verbatim>\<open>os.remove\<close>: unlinks a regular file, raises on a directory or a missing path.\<close>

definition os_remove :: "world \<Rightarrow> string \<Rightarrow> world option" where
  "os_remove w p =
     (case node_at w p of
        Some (File _ _) \<Rightarrow> map_option (\<lambda>t. w\<lparr>tree := t\<rparr>) (unlink (tree w) (resolve (cwd w) p))
      | _ \<Rightarrow> None)"

text \<open>\<^verbatim>\<open>os.rmdir\<close>: removes an empty directory, raises otherwise.\<close>

definition os_rmdir :: "world \<Rightarrow> string \<Rightarrow> world option" where
  "os_rmdir w p =
     (case node_at w p of
        Some (Dir []) \<Rightarrow> map_option (\<lambda>t. w\<lparr>tree := t\<rparr>) (unlink (tree w) (resolve (cwd w) p))
      | _ \<Rightarrow> None)"

definition os_makedirs :: "world \<Rightarrow> string \<Rightarrow> world option" where
  "os_makedirs w p =
     (if p = [] then None
      else map_option (\<lambda>t. w\<lparr>tree := t\<rparr>) (mkdirs (tree w) (resolve (cwd w) p)))"

text \<open>
  \<^verbatim>\<open>shutil.move(src, dst)\<close>: into \<open>dst\<close> when that is a directory (raising if the name is
  taken there), otherwise a rename to \<open>dst\<close>, which replaces a regular file of that name.
  It raises when the source is missing, when a path is empty, when the parent of the
  destination is not a directory, when a directory would replace a file or be moved into
  itself.
\<close>

definition shutil_move :: "world \<Rightarrow> string \<Rightarrow> string \<Rightarrow> world option" where
  "shutil_move w src dst =
     (let real_dst = (if os_path_isdir w dst
                      then os_path_join dst (os_path_basename (rev (dropWhile (\<lambda>c. c = CHR ''/'') (rev src))))
                      else dst);
          sp = resolve (cwd w) src;
          dp = resolve (cwd w) real_dst
      in if src = [] \<or> real_dst = [] then None
         else if os_path_isdir w dst \<and> os_path_exists w real_dst then None
         else (case node_at w src of
                 None \<Rightarrow> None
               | Some n \<Rightarrow>
                   if sp = dp then Some w
                   else if is_dir n \<and> (take (length sp) dp = sp \<or> lookup (tree w) dp \<noteq> None) then None
                   else (case unlink (tree w) sp of
                           None \<Rightarrow> None
                         | Some t \<Rightarrow> map_option (\<lambda>t'. w\<lparr>tree := t'\<rparr>) (put t dp n))))"

text \<open>
  \<^verbatim>\<open>os.walk\<close>: one triple (directory path, sub-directory names, file names) per directory,
  the directory before its sub-directories when \<open>topdown\<close>, after them otherwise.
\<close>

fun walk :: "bool \<Rightarrow> string \<Rightarrow> node \<Rightarrow> (string \<times> string list \<times> string list) list" where
  "walk topdown tp (File _ _) = []"
| "walk topdown tp (Dir es) =
     (let here = [(tp, map fst (filter (\<lambda>e. is_dir (snd e)) es),
                       map fst (filter (\<lambda>e. \<not> is_dir (snd e)) es))];
          below = concat (map (\<lambda>(n, c). walk topdown (os_path_join tp n) c) es)
      in if topdown then here @ below else below @ here)"

definition os_walk :: "world \<Rightarrow> string \<Rightarrow> bool \<Rightarrow> (string \<times> string list \<times> string list) list" where
  "os_walk w tp topdown =
     (case node_at w tp of Some (Dir es) \<Rightarrow> walk topdown tp (Dir es) | _ \<Rightarrow> [])"

text \<open>
  \<^verbatim>\<open>
  def get_free_space(path):
      try:
          _, _, free = shutil.disk_usage(path)
          return free
      except OSError:
          return 0
  \<close>
\<close>

definition get_free_space :: "world \<Rightarrow> string \<Rightarrow> int" where
  "get_free_space w path =
     (if os_path_exists w path then disk_free w (resolve (cwd w) path) else 0)"

text \<open>
  \<^verbatim>\<open>
  def get_file_info(path):
      try:
          return os.path.getsize(path)
      except OSError:
          return -1
  \<close>
  The size of a directory entry itself is not modelled; the program only asks for the
  size of names that \<^verbatim>\<open>os.walk\<close> listed as files.
\<close>

definition get_file_info :: "world \<Rightarrow> string \<Rightarrow> int" where
  "get_file_info w path =
     (case node_at w path of Some (File sz _) \<Rightarrow> sz | Some (Dir _) \<Rightarrow> 0 | None \<Rightarrow> - 1)"

section \<open>Configuration\<close>

definition MIN_FREE_BUFFER :: int where
  "MIN_FREE_BUFFER = 100 * 1024 * 1024 * 1024"

definition MIN_VIDEO_SIZE :: int where
  "MIN_VIDEO_SIZE = 50 * 1024 * 1024"

definition JUNK_FILES :: "string set" where
  "JUNK_FILES = {''.plexmatch'', ''.ds_store'', ''thumbs.db'', ''desktop.ini''}"

text \<open>
  \<^verbatim>\<open>PATTERN = re.compile(r'(?i)S(\d+)E(\d+)')\<close>. \<open>match_at\<close> is a match anchored at the head
  of the string and returns the two numbers and the length of the match. Both groups are
  greedy, and a shorter first group can never be followed by the letter, so there is
  nothing to backtrack. \<open>pattern_search\<close> is \<^verbatim>\<open>PATTERN.search\<close>: the leftmost match, as
  \<^verbatim>\<open>(int(group(1)), int(group(2)), match.end())\<close>.
\<close>

definition isdigit :: "char \<Rightarrow> bool" where
  "isdigit c = (48 \<le> (of_char c :: nat) \<and> (of_char c :: nat) \<le> 57)"

definition int_of_digits :: "string \<Rightarrow> nat" where
  "int_of_digits ds = foldl (\<lambda>a d. 10 * a + (of_char d - 48)) 0 ds"

definition match_at :: "string \<Rightarrow> (nat \<times> nat \<times> nat) option" where
  "match_at str =
     (case str of
        [] \<Rightarrow> None
      | c # r \<Rightarrow>
          if c = CHR ''S'' \<or> c = CHR ''s'' then
            (let d1 = takeWhile isdigit r in
             if d1 = [] then None
             else (case dropWhile isdigit r of
                     [] \<Rightarrow> None
                   | e # r2 \<Rightarrow>
                       if e = CHR ''E'' \<or> e = CHR ''e'' then
                         (let d2 = takeWhile isdigit r2 in
                          if d2 = [] then None
                          else Some (int_of_digits d1, int_of_digits d2,
                                     1 + length d1 + 1 + length d2))
                       else None))
          else None)"

fun pattern_search :: "string \<Rightarrow> (nat \<times> nat \<times> nat) option" where
  "pattern_search [] = None"
| "pattern_search (c # cs) =
     (case match_at (c # cs) of
        Some m \<Rightarrow> Some m
      | None \<Rightarrow> map_option (\<lambda>(s, e, m_end). (s, e, Suc m_end)) (pattern_search cs))"

text \<open>\<^verbatim>\<open>s.startswith(prefix)\<close>\<close>

definition startswith :: "string \<Rightarrow> string \<Rightarrow> bool" where
  "startswith str pre = (take (length pre) str = pre)"

section \<open>Action functions\<close>

text \<open>
  Each function takes the environment and returns the new one with its result.
  \<^verbatim>\<open>
  def safe_move(src, dest_dir, dry_run=True):
      try:
          if not os.path.exists(src):
              print(f"  [ERROR] Source missing: {src}")
              return False
          dst_path = os.path.join(dest_dir, os.path.basename(src))
          if os.path.exists(dst_path):
              print(f"  [ABORT] Video collision: Target exists at {dst_path}")
              return False
          if not dry_run:
              os.makedirs(dest_dir, exist_ok=True)
              shutil.move(src, dst_path)
              print(f"  [MOVED] {src} -> {dst_path}")
          else:
              print(f"  [DRY-RUN] mv {src} -> {dest_dir}/")
          return True
      except Exception as e:
          print(f"  [CRITICAL ERROR] Failed moving {src}: {e}")
          return False
  \<close>
\<close>

definition safe_move :: "world \<Rightarrow> string \<Rightarrow> string \<Rightarrow> bool \<Rightarrow> world \<times> bool" where
  "safe_move w src dest_dir dry_run =
     (if \<not> os_path_exists w src then (print (ErrorSourceMissing src) w, False)
      else
        let dst_path = os_path_join dest_dir (os_path_basename src) in
        if os_path_exists w dst_path then (print (AbortCollision dst_path) w, False)
        else if \<not> dry_run then
          (case os_makedirs w dest_dir of
             None \<Rightarrow> (print (CriticalErrorMoving src) w, False)
           | Some w1 \<Rightarrow>
               (case shutil_move w1 src dst_path of
                  None \<Rightarrow> (print (CriticalErrorMoving src) w1, False)
                | Some w2 \<Rightarrow> (print (Moved src dst_path) w2, True)))
        else (print (DryRunMv src dest_dir) w, True))"

text \<open>
  \<^verbatim>\<open>
  def force_move(src, dest_dir, dry_run=True):
      try:
          if not os.path.exists(src): return False
          dst_path = os.path.join(dest_dir, os.path.basename(src))
          if not dry_run:
              os.makedirs(dest_dir, exist_ok=True)
              if os.path.exists(dst_path):
                  os.remove(dst_path)
              shutil.move(src, dst_path)
              print(f"  [MERGED] {src} -> {dest_dir}/")
          else:
              if os.path.exists(dst_path):
                  print(f"  [DRY-RUN] rm {dst_path} && mv {src} ...")
              else:
                  print(f"  [DRY-RUN] mv {src} -> {dest_dir}/")
          return True
      except Exception as e:
          print(f"  [ERROR] Moving {src}: {e}")
          return False
  \<close>
\<close>

definition force_move :: "world \<Rightarrow> string \<Rightarrow> string \<Rightarrow> bool \<Rightarrow> world \<times> bool" where
  "force_move w src dest_dir dry_run =
     (if \<not> os_path_exists w src then (w, False)
      else
        let dst_path = os_path_join dest_dir (os_path_basename src) in
        if \<not> dry_run then
          (case os_makedirs w dest_dir of
             None \<Rightarrow> (print (ErrorMoving src) w, False)
           | Some w1 \<Rightarrow>
               (case (if os_path_exists w1 dst_path then os_remove w1 dst_path else Some w1) of
                  None \<Rightarrow> (print (ErrorMoving src) w1, False)
                | Some w2 \<Rightarrow>
                    (case shutil_move w2 src dst_path of
                       None \<Rightarrow> (print (ErrorMoving src) w2, False)
                     | Some w3 \<Rightarrow> (print (Merged src dest_dir) w3, True))))
        else if os_path_exists w dst_path then (print (DryRunRmMv dst_path src) w, True)
        else (print (DryRunMv src dest_dir) w, True))"

text \<open>
  \<^verbatim>\<open>
  def safe_delete(src, dry_run=True):
      try:
          if not dry_run:
              if os.path.exists(src):
                  os.remove(src)
                  print(f"  [DELETED] {src}")
          else:
              print(f"  [DRY-RUN] rm {src}")
          return True
      except Exception as e:
          print(f"  [ERROR] Deleting {src}: {e}")
          return False
  \<close>
\<close>

definition safe_delete :: "world \<Rightarrow> string \<Rightarrow> bool \<Rightarrow> world \<times> bool" where
  "safe_delete w src dry_run =
     (if \<not> dry_run then
        (if os_path_exists w src then
           (case os_remove w src of
              None \<Rightarrow> (print (ErrorDeleting src) w, False)
            | Some w1 \<Rightarrow> (print (Deleted src) w1, True))
         else (w, True))
      else (print (DryRunRm src) w, True))"

text \<open>
  The body of the loop of \<open>cleanup_folder_tree\<close> for one triple of the walk:
  \<^verbatim>\<open>
      is_empty = True
      for f in files:
          if f.lower() in JUNK_FILES:
              junk_path = os.path.join(root, f)
              safe_delete(junk_path, dry_run)
          else:
              is_empty = False
      if is_empty:
          if not dry_run:
              try:
                  if not os.listdir(root):
                      os.rmdir(root)
                      print(f"  [CLEANUP] Removed empty dir: {root}")
              except OSError:
                  pass
          else:
              print(f"  [DRY-RUN] rmdir {root} (If empty)")
  \<close>
\<close>

definition cleanup_file :: "bool \<Rightarrow> string \<Rightarrow> string \<Rightarrow> world \<times> bool \<Rightarrow> world \<times> bool" where
  "cleanup_file dry_run root f st =
     (case st of (w, is_empty) \<Rightarrow>
        if lower f \<in> JUNK_FILES
        then (fst (safe_delete w (os_path_join root f) dry_run), is_empty)
        else (w, False))"

definition cleanup_dir :: "bool \<Rightarrow> string \<times> string list \<times> string list \<Rightarrow> world \<Rightarrow> world" where
  "cleanup_dir dry_run triple w =
     (case triple of (root, dirs, files) \<Rightarrow>
        (case fold (cleanup_file dry_run root) files (w, True) of (w1, is_empty) \<Rightarrow>
           if is_empty then
             (if \<not> dry_run then
                (case os_listdir w1 root of
                   None \<Rightarrow> w1
                 | Some names \<Rightarrow>
                     if names = [] then
                       (case os_rmdir w1 root of
                          None \<Rightarrow> w1
                        | Some w2 \<Rightarrow> print (CleanupRemoved root) w2)
                     else w1)
              else print (DryRunRmdir root) w1)
           else w1))"

text \<open>
  \<^verbatim>\<open>
  def cleanup_folder_tree(path, dry_run=True):
      if not os.path.exists(path): return
      for root, dirs, files in os.walk(path, topdown=False):
          ...
  \<close>
  \<^verbatim>\<open>os.walk\<close> lists a directory before it descends into it and hands the triple out after
  its sub-directories. The loop body changes only the files of the directory it is handed
  and that directory itself, and never reads \<open>dirs\<close>, so the triples are those of the walk
  over the tree as the function finds it.
\<close>

definition cleanup_folder_tree :: "world \<Rightarrow> string \<Rightarrow> bool \<Rightarrow> world" where
  "cleanup_folder_tree w path dry_run =
     (if \<not> os_path_exists w path then w
      else fold (cleanup_dir dry_run) (os_walk w path False) w)"

section \<open>The library\<close>

text \<open>
  The dictionaries the scanner builds, as records. A Python \<^verbatim>\<open>dict\<close> keeps its keys in
  insertion order, so it is an association list: \<open>AList.update\<close> overwrites the value of a
  key in place and appends a new key at the end.
\<close>

record file_entry =
  fe_filename :: string
  fe_path :: string
  fe_size :: int
  fe_match_end :: nat

record companion =
  comp_path :: string
  comp_size :: int

record episode_copy =
  ep_path :: string
  ep_size :: int
  ep_total_size :: int
  ep_disk :: string
  ep_rel_dir :: string
  ep_companions :: "companion list"

record artifact =
  art_path :: string
  art_disk :: string
  art_rel_dir :: string
  art_size :: int

record disk_stat =
  real_folder :: string
  total_size :: int

type_synonym slot = "nat \<times> nat"

record series =
  display_name :: "string option"
  disks :: "(string \<times> disk_stat) list"
  episodes :: "(slot \<times> episode_copy list) list"
  artifacts :: "artifact list"

type_synonym library = "(string \<times> series) list"

text \<open>The values a \<^verbatim>\<open>defaultdict\<close> creates for a missing key.\<close>

definition default_disk :: disk_stat where
  "default_disk = \<lparr>real_folder = [], total_size = 0\<rparr>"

definition default_series :: series where
  "default_series = \<lparr>display_name = None, disks = [], episodes = [], artifacts = []\<rparr>"

definition get_disk :: "(string \<times> disk_stat) list \<Rightarrow> string \<Rightarrow> disk_stat" where
  "get_disk ds k = (case map_of ds k of None \<Rightarrow> default_disk | Some d \<Rightarrow> d)"

definition get_series :: "library \<Rightarrow> string \<Rightarrow> series" where
  "get_series lib k = (case map_of lib k of None \<Rightarrow> default_series | Some d \<Rightarrow> d)"

text \<open>\<^verbatim>\<open>d[k].append(v)\<close> on a \<^verbatim>\<open>defaultdict(list)\<close>\<close>

definition dict_append :: "'k \<Rightarrow> 'v \<Rightarrow> ('k \<times> 'v list) list \<Rightarrow> ('k \<times> 'v list) list" where
  "dict_append k v d =
     AList.update k ((case map_of d k of None \<Rightarrow> [] | Some vs \<Rightarrow> vs) @ [v]) d"

text \<open>\<^verbatim>\<open>lib_entry['disks'][root_path]['total_size'] += n\<close>\<close>

definition add_total_size :: "string \<Rightarrow> int \<Rightarrow> series \<Rightarrow> series" where
  "add_total_size root_path n lib_entry =
     (let d = get_disk (disks lib_entry) root_path
      in lib_entry\<lparr>disks := AList.update root_path (d\<lparr>total_size := total_size d + n\<rparr>)
                                 (disks lib_entry)\<rparr>)"

section \<open>The scanner\<close>

text \<open>
  Step 1 of the scan of one directory, for one file name:
  \<^verbatim>\<open>
      match = PATTERN.search(f)
      if match:
          s_num = int(match.group(1)); e_num = int(match.group(2))
          f_path = os.path.join(dirpath, f)
          size = get_file_info(f_path)
          local_ep_groups[(s_num, e_num)].append({
              'filename': f, 'path': f_path, 'size': size, 'match_end': match.end()})
      else:
          unmatched_files.append(f)
  \<close>
\<close>

definition group_file ::
  "world \<Rightarrow> string \<Rightarrow> string \<Rightarrow> (slot \<times> file_entry list) list \<times> string list
     \<Rightarrow> (slot \<times> file_entry list) list \<times> string list" where
  "group_file w dirpath f st =
     (case st of (local_ep_groups, unmatched_files) \<Rightarrow>
        (case pattern_search f of
           Some (s_num, e_num, m_end) \<Rightarrow>
             (let f_path = os_path_join dirpath f;
                  sz = get_file_info w f_path
              in (dict_append (s_num, e_num)
                    \<lparr>fe_filename = f, fe_path = f_path, fe_size = sz, fe_match_end = m_end\<rparr>
                    local_ep_groups,
                  unmatched_files))
         | None \<Rightarrow> (local_ep_groups, unmatched_files @ [f])))"

text \<open>
  \<^verbatim>\<open>
      for other in group[1:]:
          files_claimed.add(other['filename'])
          companions.append({'path': other['path'], 'size': other['size']})
          total_size += other['size']
  \<close>
\<close>

definition add_smaller ::
  "file_entry \<Rightarrow> companion list \<times> int \<times> string set \<Rightarrow> companion list \<times> int \<times> string set" where
  "add_smaller other st =
     (case st of (companions, total_sz, files_claimed) \<Rightarrow>
        (companions @ [\<lparr>comp_path = fe_path other, comp_size = fe_size other\<rparr>],
         total_sz + fe_size other,
         insert (fe_filename other) files_claimed))"

text \<open>
  \<^verbatim>\<open>
      prefix = candidate['filename'][:candidate['match_end']]
      for um_f in unmatched_files:
          if um_f in files_claimed: continue
          if um_f.startswith(prefix):
              um_path = os.path.join(dirpath, um_f)
              um_size = get_file_info(um_path)
              companions.append({'path': um_path, 'size': um_size})
              total_size += um_size
              files_claimed.add(um_f)
  \<close>
\<close>

definition add_prefixed ::
  "world \<Rightarrow> string \<Rightarrow> string \<Rightarrow> string
     \<Rightarrow> companion list \<times> int \<times> string set \<Rightarrow> companion list \<times> int \<times> string set" where
  "add_prefixed w dirpath pre um_f st =
     (case st of (companions, total_sz, files_claimed) \<Rightarrow>
        if um_f \<in> files_claimed then st
        else if startswith um_f pre then
          (let um_path = os_path_join dirpath um_f;
               um_size = get_file_info w um_path
           in (companions @ [\<lparr>comp_path = um_path, comp_size = um_size\<rparr>],
               total_sz + um_size,
               insert um_f files_claimed))
        else st)"

text \<open>
  Step 2 for one group of the directory:
  \<^verbatim>\<open>
      group.sort(key=lambda x: x['size'], reverse=True)
      candidate = group[0]
      if candidate['size'] > MIN_VIDEO_SIZE:
          files_claimed.add(candidate['filename'])
          companions = []
          total_size = candidate['size']
          ... the two loops above ...
          entry = {'path': candidate['path'], 'size': candidate['size'],
                   'total_size': total_size, 'disk': root_path,
                   'rel_dir': rel_dir, 'companions': companions}
          lib_entry['episodes'][(s, e)].append(entry)
          lib_entry['disks'][root_path]['total_size'] += total_size
  \<close>
  The sort is stable and \<^verbatim>\<open>reverse=True\<close> keeps the order of equal keys, which is a stable
  ascending sort on the negated size. A group is created by its first \<^verbatim>\<open>append\<close>, so
  \<^verbatim>\<open>group[0]\<close> exists; the empty case is there for totality only.
\<close>

definition claim_group ::
  "world \<Rightarrow> string \<Rightarrow> string \<Rightarrow> string \<Rightarrow> string list \<Rightarrow> slot \<times> file_entry list
     \<Rightarrow> series \<times> string set \<Rightarrow> series \<times> string set" where
  "claim_group w dirpath root_path rel_dir unmatched_files g st =
     (case st of (lib_entry, files_claimed) \<Rightarrow>
        (case sort_key (\<lambda>x. - fe_size x) (snd g) of
           [] \<Rightarrow> st
         | candidate # rest \<Rightarrow>
             if fe_size candidate > MIN_VIDEO_SIZE then
               (case fold (add_prefixed w dirpath
                             (take (fe_match_end candidate) (fe_filename candidate)))
                       unmatched_files
                       (fold add_smaller rest
                          ([], fe_size candidate, insert (fe_filename candidate) files_claimed)) of
                  (companions, total_sz, files_claimed') \<Rightarrow>
                    (add_total_size root_path total_sz
                       (lib_entry\<lparr>episodes :=
                          dict_append (fst g)
                            \<lparr>ep_path = fe_path candidate, ep_size = fe_size candidate,
                             ep_total_size = total_sz, ep_disk = root_path,
                             ep_rel_dir = rel_dir, ep_companions = companions\<rparr>
                            (episodes lib_entry)\<rparr>),
                     files_claimed'))
             else st))"

text \<open>
  Step 3 for one file name:
  \<^verbatim>\<open>
      if f not in files_claimed:
          if f.startswith('.'): continue
          f_path = os.path.join(dirpath, f)
          size = get_file_info(f_path)
          lib_entry['artifacts'].append({
              'path': f_path, 'disk': root_path, 'rel_dir': rel_dir, 'size': size})
          lib_entry['disks'][root_path]['total_size'] += size
  \<close>
\<close>

definition add_artifact ::
  "world \<Rightarrow> string \<Rightarrow> string \<Rightarrow> string \<Rightarrow> string set \<Rightarrow> string \<Rightarrow> series \<Rightarrow> series" where
  "add_artifact w dirpath root_path rel_dir files_claimed f lib_entry =
     (if f \<notin> files_claimed then
        (if startswith f ''.'' then lib_entry
         else
           (let f_path = os_path_join dirpath f;
                sz = get_file_info w f_path
            in add_total_size root_path sz
                 (lib_entry\<lparr>artifacts := artifacts lib_entry @
                    [\<lparr>art_path = f_path, art_disk = root_path, art_rel_dir = rel_dir,
                      art_size = sz\<rparr>]\<rparr>)))
      else lib_entry)"

text \<open>
  The three steps on the file names of one directory: step 1 builds \<open>local_ep_groups\<close>
  and \<open>unmatched_files\<close>, step 2 goes through the groups with \<open>files_claimed\<close> starting
  empty, step 3 goes through the file names again.
\<close>

definition group_files ::
  "world \<Rightarrow> string \<Rightarrow> string list \<Rightarrow> (slot \<times> file_entry list) list \<times> string list" where
  "group_files w dirpath filenames = fold (group_file w dirpath) filenames ([], [])"

definition claim_groups ::
  "world \<Rightarrow> string \<Rightarrow> string \<Rightarrow> string \<Rightarrow> string list \<Rightarrow> series \<Rightarrow> series \<times> string set" where
  "claim_groups w root_path dirpath rel_dir filenames lib_entry =
     (case group_files w dirpath filenames of
        (local_ep_groups, unmatched_files) \<Rightarrow>
          fold (claim_group w dirpath root_path rel_dir unmatched_files) local_ep_groups
            (lib_entry, {}))"

definition scan_files ::
  "world \<Rightarrow> string \<Rightarrow> string \<Rightarrow> string \<Rightarrow> string list \<Rightarrow> series \<Rightarrow> series" where
  "scan_files w root_path dirpath rel_dir filenames lib_entry =
     (case claim_groups w root_path dirpath rel_dir filenames lib_entry of
        (lib_entry', files_claimed) \<Rightarrow>
          fold (add_artifact w dirpath root_path rel_dir files_claimed) filenames lib_entry')"

text \<open>
  The body of the loop over \<^verbatim>\<open>os.walk(series_path)\<close>, which first computes
  \<^verbatim>\<open>rel_dir = os.path.relpath(dirpath, series_path); if rel_dir == ".": rel_dir = ""\<close>.
\<close>

definition scan_dir ::
  "world \<Rightarrow> string \<Rightarrow> string \<Rightarrow> string \<times> string list \<times> string list \<Rightarrow> series \<Rightarrow> series" where
  "scan_dir w root_path series_path triple lib_entry =
     (case triple of (dirpath, dirnames, filenames) \<Rightarrow>
        (let rel = os_path_relpath (cwd w) dirpath series_path;
             rel_dir = (if rel = ''.'' then [] else rel)
         in scan_files w root_path dirpath rel_dir filenames lib_entry))"

text \<open>
  The body of the loop over the series folders of one root:
  \<^verbatim>\<open>
      norm_key = normalize_name(folder_name)
      series_path = os.path.join(real_root, folder_name)
      lib_entry = library[norm_key]
      if not lib_entry['display_name']:
          lib_entry['display_name'] = folder_name
      lib_entry['disks'][root_path]['real_folder'] = folder_name
      for dirpath, _, filenames in os.walk(series_path): ...
  \<close>
\<close>

definition scan_series :: "world \<Rightarrow> string \<Rightarrow> string \<Rightarrow> string \<Rightarrow> library \<Rightarrow> library" where
  "scan_series w root_path real_root folder_name lib =
     (let norm_key = normalize_name folder_name;
          series_path = os_path_join real_root folder_name;
          e0 = get_series lib norm_key;
          e1 = (if display_name e0 = None \<or> display_name e0 = Some []
                then e0\<lparr>display_name := Some folder_name\<rparr> else e0);
          e2 = e1\<lparr>disks := AList.update root_path
                        ((get_disk (disks e1) root_path)\<lparr>real_folder := folder_name\<rparr>)
                        (disks e1)\<rparr>
      in AList.update norm_key
           (fold (scan_dir w root_path series_path) (os_walk w series_path True) e2) lib)"

text \<open>
  The body of the loop over the roots; a missing or unreadable root is skipped:
  \<^verbatim>\<open>
      real_root = os.path.abspath(root_path)
      if not os.path.exists(real_root): continue
      try:
          series_dirs = [d for d in os.listdir(real_root)
                         if os.path.isdir(os.path.join(real_root, d))]
      except OSError as e: continue
      for folder_name in series_dirs: ...
  \<close>
  The progress lines the scanner prints are not modelled.
\<close>

definition scan_root :: "world \<Rightarrow> string \<Rightarrow> library \<Rightarrow> library" where
  "scan_root w root_path lib =
     (let real_root = os_path_abspath (cwd w) root_path in
      if \<not> os_path_exists w real_root then lib
      else (case os_listdir w real_root of
              None \<Rightarrow> lib
            | Some names \<Rightarrow>
                fold (scan_series w root_path real_root)
                  (filter (\<lambda>d. os_path_isdir w (os_path_join real_root d)) names) lib))"

definition scan_library :: "world \<Rightarrow> string list \<Rightarrow> library" where
  "scan_library w roots = fold (scan_root w) roots []"

section \<open>Consolidation\<close>

text \<open>
  The safety check of \<open>process_consolidation\<close>:
  \<^verbatim>\<open>
      has_bad_dupe = False
      for (s, e), copies in episodes.items():
          if len(copies) > 1:
              sizes = set(c['size'] for c in copies)
              if len(sizes) > 1:
                  has_bad_dupe = True
                  break
  \<close>
\<close>

definition has_bad_dupe :: "series \<Rightarrow> bool" where
  "has_bad_dupe data =
     list_ex (\<lambda>sl. length (snd sl) > 1 \<and> card (set (map ep_size (snd sl))) > 1) (episodes data)"

text \<open>
  The import size for a candidate. \<open>None\<close> stands for the \<^verbatim>\<open>IndexError\<close> that
  \<^verbatim>\<open>copies[0]\<close> raises on an empty list; nothing catches it.
  \<^verbatim>\<open>
      bytes_needed = 0
      for (s, e), copies in episodes.items():
          if not any(c['disk'] == disk_path for c in copies):
              bytes_needed += copies[0]['total_size']
      for art in artifacts:
          if art['disk'] != disk_path:
              bytes_needed += art['size']
  \<close>
\<close>

fun needed_episodes :: "string \<Rightarrow> (slot \<times> episode_copy list) list \<Rightarrow> int \<Rightarrow> int option" where
  "needed_episodes disk_path [] bytes_needed = Some bytes_needed"
| "needed_episodes disk_path (sl # rest) bytes_needed =
     (if \<not> list_ex (\<lambda>c. ep_disk c = disk_path) (snd sl) then
        (case snd sl of
           [] \<Rightarrow> None
         | c # _ \<Rightarrow> needed_episodes disk_path rest (bytes_needed + ep_total_size c))
      else needed_episodes disk_path rest bytes_needed)"

definition needed_artifacts :: "string \<Rightarrow> artifact list \<Rightarrow> int \<Rightarrow> int" where
  "needed_artifacts disk_path arts bytes_needed =
     fold (\<lambda>art b. if art_disk art \<noteq> disk_path then b + art_size art else b) arts bytes_needed"

definition bytes_needed_for :: "series \<Rightarrow> string \<Rightarrow> int option" where
  "bytes_needed_for data disk_path =
     map_option (needed_artifacts disk_path (artifacts data))
       (needed_episodes disk_path (episodes data) 0)"

text \<open>
  \<^verbatim>\<open>candidates = sorted(data['disks'].items(), key=lambda x: x[1]['total_size'], reverse=True)\<close>
\<close>

definition candidates :: "series \<Rightarrow> (string \<times> disk_stat) list" where
  "candidates data = sort_key (\<lambda>x. - total_size (snd x)) (disks data)"

text \<open>
  The loop over the candidates, which stops at the first that qualifies. The result is
  \<^verbatim>\<open>(target_disk, target_series_folder_name, plan_import_size)\<close>, or \<open>Some None\<close> when the
  loop ends with \<^verbatim>\<open>target_disk = None\<close>.
  \<^verbatim>\<open>
      for disk_path, meta in candidates:
          ... bytes_needed ...
          if (get_free_space(disk_path) - bytes_needed) > MIN_FREE_BUFFER:
              target_disk = disk_path
              target_series_folder_name = meta['real_folder']
              plan_import_size = bytes_needed
              break
  \<close>
\<close>

fun select_target ::
  "world \<Rightarrow> series \<Rightarrow> (string \<times> disk_stat) list \<Rightarrow> (string \<times> string \<times> int) option option" where
  "select_target w data [] = Some None"
| "select_target w data (cand # rest) =
     (case bytes_needed_for data (fst cand) of
        None \<Rightarrow> None
      | Some bytes_needed \<Rightarrow>
          if get_free_space w (fst cand) - bytes_needed > MIN_FREE_BUFFER
          then Some (Some (fst cand, real_folder (snd cand), bytes_needed))
          else select_target w data rest)"

text \<open>
  \<^verbatim>\<open>
      safe_delete(c['path'], not execute)
      for comp in c['companions']: safe_delete(comp['path'], not execute)
  \<close>
\<close>

definition delete_copy :: "bool \<Rightarrow> episode_copy \<Rightarrow> world \<Rightarrow> world" where
  "delete_copy dry_run c w =
     fold (\<lambda>cp w'. fst (safe_delete w' (comp_path cp) dry_run)) (ep_companions c)
       (fst (safe_delete w (ep_path c) dry_run))"

text \<open>\<^verbatim>\<open>for comp in src['companions']: force_move(comp['path'], dest_dir, not execute)\<close>\<close>

definition move_companions :: "bool \<Rightarrow> string \<Rightarrow> companion list \<Rightarrow> world \<Rightarrow> world" where
  "move_companions dry_run dest_dir comps w =
     fold (\<lambda>cp w'. fst (force_move w' (comp_path cp) dest_dir dry_run)) comps w"

text \<open>
  The body of the loop over the episodes:
  \<^verbatim>\<open>
      on_target = [c for c in copies if c['disk'] == target_disk]
      others = [c for c in copies if c['disk'] != target_disk]
      if on_target:
          for c in others: ... delete the copy and its companions ...
      else:
          src = others[0]
          dest_dir = os.path.join(target_root_full, src['rel_dir'])
          if safe_move(src['path'], dest_dir, not execute):
              for comp in src['companions']:
                  force_move(comp['path'], dest_dir, not execute)
              for redundant in others[1:]: ... delete the copy and its companions ...
          else:
              print(f"  [ABORT] Move failed for S{s}E{e}.")
  \<close>
  \<open>None\<close> is the \<^verbatim>\<open>IndexError\<close> of \<^verbatim>\<open>others[0]\<close>.
\<close>

definition reconcile_episode ::
  "bool \<Rightarrow> string \<Rightarrow> string \<Rightarrow> slot \<times> episode_copy list \<Rightarrow> world \<Rightarrow> world option" where
  "reconcile_episode execute target_disk target_root_full sl w =
     (let on_target = filter (\<lambda>c. ep_disk c = target_disk) (snd sl);
          others = filter (\<lambda>c. ep_disk c \<noteq> target_disk) (snd sl)
      in if on_target \<noteq> [] then Some (fold (delete_copy (\<not> execute)) others w)
         else (case others of
                 [] \<Rightarrow> None
               | src # redundant \<Rightarrow>
                   (let dest_dir = os_path_join target_root_full (ep_rel_dir src) in
                    (case safe_move w (ep_path src) dest_dir (\<not> execute) of
                       (w1, ok) \<Rightarrow>
                         if ok then
                           Some (fold (delete_copy (\<not> execute)) redundant
                                   (move_companions (\<not> execute) dest_dir (ep_companions src) w1))
                         else Some (print (AbortMoveFailed (fst (fst sl)) (snd (fst sl))) w1)))))"

fun reconcile_episodes ::
  "bool \<Rightarrow> string \<Rightarrow> string \<Rightarrow> (slot \<times> episode_copy list) list \<Rightarrow> world \<Rightarrow> world option" where
  "reconcile_episodes execute target_disk target_root_full [] w = Some w"
| "reconcile_episodes execute target_disk target_root_full (sl # rest) w =
     (case reconcile_episode execute target_disk target_root_full sl w of
        None \<Rightarrow> None
      | Some w1 \<Rightarrow> reconcile_episodes execute target_disk target_root_full rest w1)"

text \<open>
  \<^verbatim>\<open>
      for art in artifacts:
          if art['disk'] != target_disk:
              dest_dir = os.path.join(target_root_full, art['rel_dir'])
              force_move(art['path'], dest_dir, not execute)
  \<close>
\<close>

definition move_artifact :: "bool \<Rightarrow> string \<Rightarrow> string \<Rightarrow> artifact \<Rightarrow> world \<Rightarrow> world" where
  "move_artifact execute target_disk target_root_full art w =
     (if art_disk art \<noteq> target_disk
      then fst (force_move w (art_path art) (os_path_join target_root_full (art_rel_dir art))
                  (\<not> execute))
      else w)"

text \<open>
  \<^verbatim>\<open>
      for disk_path in involved_disks:
          if disk_path == target_disk: continue
          source_folder_name = data['disks'][disk_path]['real_folder']
          source_full_path = os.path.join(disk_path, source_folder_name)
          print(f"  -> Cleaning source: {source_full_path}")
          cleanup_folder_tree(source_full_path, not execute)
  \<close>
\<close>

definition clean_source :: "bool \<Rightarrow> series \<Rightarrow> string \<Rightarrow> string \<Rightarrow> world \<Rightarrow> world" where
  "clean_source execute data target_disk disk_path w =
     (if disk_path = target_disk then w
      else
        (let source_folder_name = real_folder (get_disk (disks data) disk_path);
             source_full_path = os_path_join disk_path source_folder_name
         in cleanup_folder_tree (print (CleaningSource source_full_path) w) source_full_path
              (\<not> execute)))"

text \<open>What an f-string prints for \<open>display_name\<close>.\<close>

definition display :: "series \<Rightarrow> string" where
  "display data = (case display_name data of None \<Rightarrow> ''None'' | Some n \<Rightarrow> n)"

definition conflict_msg :: "series \<Rightarrow> string" where
  "conflict_msg data =
     ''SKIPPED '' @ display data @ '': Conflicting duplicates (different sizes) found.''"

definition no_space_msg :: "series \<Rightarrow> string" where
  "no_space_msg data =
     ''SKIPPED '' @ display data @ '': No candidate disk has enough free space.''"

definition skip :: "string \<Rightarrow> world \<times> string list \<Rightarrow> world \<times> string list" where
  "skip msg st = (print (SkipNotice msg) (fst st), snd st @ [msg])"

text \<open>
  Step 3 and step 4 of the loop body, once a target is selected.
\<close>

definition consolidate ::
  "bool \<Rightarrow> series \<Rightarrow> string \<Rightarrow> string \<Rightarrow> world \<Rightarrow> world option" where
  "consolidate execute data target_disk target_series_folder_name w =
     (let target_root_full = os_path_join target_disk target_series_folder_name in
      (case reconcile_episodes execute target_disk target_root_full (episodes data)
              (print (ConsolidatingTo target_disk target_series_folder_name) w) of
         None \<Rightarrow> None
       | Some w1 \<Rightarrow>
           Some (fold (clean_source execute data target_disk) (map fst (disks data))
                   (fold (move_artifact execute target_disk target_root_full) (artifacts data) w1))))"

text \<open>
  The body of the loop of \<open>process_consolidation\<close> for one series; the state is the
  environment and \<open>skipped_log\<close>. \<^verbatim>\<open>if not target_disk\<close> also holds for the empty string.
  \<^verbatim>\<open>
      involved_disks = list(data['disks'].keys())
      if len(involved_disks) <= 1:
          continue
      print(f"Processing: {display_name} (Found on {len(involved_disks)} disks)...")
      ... safety check ...
      if has_bad_dupe:
          msg = f"SKIPPED {display_name}: Conflicting duplicates (different sizes) found."
          print(f"  [!] {msg}")
          skipped_log.append(msg)
          continue
      ... target selection ...
      if not target_disk:
          msg = f"SKIPPED {display_name}: No candidate disk has enough free space."
          print(f"  [!] {msg}")
          skipped_log.append(msg)
          continue
      ... actions, cleanup ...
  \<close>
\<close>

definition process_series ::
  "bool \<Rightarrow> series \<Rightarrow> world \<times> string list \<Rightarrow> (world \<times> string list) option" where
  "process_series execute data st =
     (if length (map fst (disks data)) \<le> 1 then Some st
      else
        (let w1 = print (Processing (display data) (length (map fst (disks data)))) (fst st) in
         if has_bad_dupe data then Some (skip (conflict_msg data) (w1, snd st))
         else
           (case select_target w1 data (candidates data) of
              None \<Rightarrow> None
            | Some None \<Rightarrow> Some (skip (no_space_msg data) (w1, snd st))
            | Some (Some (target_disk, target_series_folder_name, plan_import_size)) \<Rightarrow>
                if target_disk = [] then Some (skip (no_space_msg data) (w1, snd st))
                else map_option (\<lambda>w'. (w', snd st))
                       (consolidate execute data target_disk target_series_folder_name w1))))"

text \<open>
  \<^verbatim>\<open>
  def process_consolidation(library, execute=False):
      ...
      skipped_log = []
      for norm_key in sorted(library.keys()):
          data = library[norm_key]
          ...
      return skipped_log
  \<close>
\<close>

fun process_keys ::
  "bool \<Rightarrow> library \<Rightarrow> string list \<Rightarrow> world \<times> string list \<Rightarrow> (world \<times> string list) option" where
  "process_keys execute lib [] st = Some st"
| "process_keys execute lib (norm_key # ks) st =
     (case process_series execute (get_series lib norm_key) st of
        None \<Rightarrow> None
      | Some st' \<Rightarrow> process_keys execute lib ks st')"

definition process_consolidation ::
  "library \<Rightarrow> bool \<Rightarrow> world \<Rightarrow> (world \<times> string list) option" where
  "process_consolidation lib execute w =
     process_keys execute lib (sort (map fst lib)) (print (Banner execute) w, [])"

text \<open>
  A candidate that is evaluated by the selection loop and does not qualify: its import
  size is computed and the free space left after the import is at most the buffer.
\<close>

definition rejected :: "world \<Rightarrow> series \<Rightarrow> string \<times> disk_stat \<Rightarrow> bool" where
  "rejected w data cand =
     (case bytes_needed_for data (fst cand) of
        None \<Rightarrow> False
      | Some b \<Rightarrow> get_free_space w (fst cand) - b \<le> MIN_FREE_BUFFER)"

section \<open>Example scenarios\<close>

text \<open>
  File trees for the scenarios the properties are tried on. Sizes are in bytes
  (100 MiB = 104857600). Every scenario is scanned from the roots \<^verbatim>\<open>/a\<close> and \<^verbatim>\<open>/b\<close>.
\<close>

definition GiB :: int where
  "GiB = 1024 * 1024 * 1024"

text \<open>Series Bar: the same episode with 100 MiB on one root and 90 MiB on the other.\<close>

definition bar_world :: world where
  "bar_world =
     \<lparr>tree = Dir [(''a'', Dir [(''Bar'', Dir [(''S01E01.mkv'', File 104857600 1)])]),
                   (''b'', Dir [(''Bar'', Dir [(''S01E01.mkv'', File 94371840 2)])])],
      cwd = ''/'', disk_free = (\<lambda>p. 500 * GiB), stdout = []\<rparr>"

definition bar_series :: series where
  "bar_series = get_series (scan_library bar_world [''/a'', ''/b'']) ''bar''"

text \<open>
  Series Foo: episode 1 on both roots with equal size, episode 2 on the second root only.
\<close>

definition foo_world :: world where
  "foo_world =
     \<lparr>tree = Dir [(''a'', Dir [(''Foo'', Dir [(''S01E01.mkv'', File 104857600 1)])]),
                   (''b'', Dir [(''foo'', Dir [(''S01E01.mkv'', File 104857600 1),
                                               (''S01E02.mkv'', File 125829120 2)])])],
      cwd = ''/'', disk_free = (\<lambda>p. 500 * GiB), stdout = []\<rparr>"

definition foo_series :: series where
  "foo_series = get_series (scan_library foo_world [''/a'', ''/b'']) ''foo''"

text \<open>
  Series Baz: mostly on the first root, whose file system has 50 GiB free; the second
  has 500 GiB free. In \<open>baz_world_full\<close> no file system has free space.
\<close>

definition baz_world :: world where
  "baz_world =
     \<lparr>tree = Dir [(''a'', Dir [(''Baz'', Dir [(''S01E01.mkv'', File 104857600 1),
                                               (''S01E02.mkv'', File 125829120 2)])]),
                   (''b'', Dir [(''baz'', Dir [(''S01E03.mkv'', File 104857600 3),
                                               (''folder.jpg'', File 2048 4)])])],
      cwd = ''/'',
      disk_free = (\<lambda>p. if p = [''a''] then 50 * GiB else 500 * GiB),
      stdout = []\<rparr>"

definition baz_world_full :: world where
  "baz_world_full = baz_world\<lparr>disk_free := (\<lambda>p. 0)\<rparr>"

definition baz_series :: series where
  "baz_series = get_series (scan_library baz_world [''/a'', ''/b'']) ''baz''"

text \<open>
  Series Show: the first root holds the same episode twice, in two sub-directories and
  with different sizes; the second root holds another episode.
\<close>

definition dup_world :: world where
  "dup_world =
     \<lparr>tree = Dir [(''a'', Dir [(''Show'', Dir [(''Season 1'', Dir [(''S01E01.mkv'', File 62914560 1)]),
                                                (''Extras'', Dir [(''S01E01.mkv'', File 73400320 2)])])]),
                   (''b'', Dir [(''show'', Dir [(''S01E02.mkv'', File 62914560 3)])])],
      cwd = ''/'', disk_free = (\<lambda>p. 500 * GiB), stdout = []\<rparr>"

definition dup_series :: series where
  "dup_series = get_series (scan_library dup_world [''/a'', ''/b'']) ''show''"

text \<open>
  The group of the directory \<^verbatim>\<open>/a/Show/Extras\<close> of series Show, and the series entry as it
  is once \<^verbatim>\<open>/a/Show/Season 1\<close> has been scanned.
\<close>
definition extras_group :: "slot \<times> file_entry list" where
  "extras_group = ((1, 1), [\<lparr>fe_filename = ''S01E01.mkv'', fe_path = ''/a/Show/Extras/S01E01.mkv'',
                              fe_size = 73400320, fe_match_end = 6\<rparr>])"

definition season1_scanned :: series where
  "season1_scanned = default_series\<lparr>episodes := [((1, 1), [\<lparr>ep_path = ''/a/Show/Season 1/S01E01.mkv'',
                      ep_size = 62914560, ep_total_size = 62914560, ep_disk = ''/a'',
                      ep_rel_dir = ''Season 1'', ep_companions = []\<rparr>])]\<rparr>"

text \<open>
  Series Show with a stub of episode 1 at the destination: the first root holds episodes
  1 and 3, the second root holds episode 2 and a 10 MiB file that has the name of
  episode 1 (too small to be an episode copy, so it is an artifact of the second root).
  The first root's file system has 50 GiB free, so the second root is the target.
\<close>

definition col_world :: world where
  "col_world =
     \<lparr>tree = Dir [(''a'', Dir [(''Show'', Dir [(''S01E01.mkv'', File 62914560 1),
                                                (''S01E03.mkv'', File 62914560 3)])]),
                   (''b'', Dir [(''show'', Dir [(''S01E01.mkv'', File 10485760 9),
                                                (''S01E02.mkv'', File 62914560 2)])])],
      cwd = ''/'',
      disk_free = (\<lambda>p. if p = [''a''] then 50 * GiB else 500 * GiB),
      stdout = []\<rparr>"

definition col_series :: series where
  "col_series = get_series (scan_library col_world [''/a'', ''/b'']) ''show''"













section \<open>Lemmas on characters and strings\<close>

lemma char_code: "(c = d) = ((of_char c :: nat) = of_char d)" by simp

lemma isspace_code: "isspace c = ((of_char c :: nat) \<in> {9,10,11,12,13,28,29,30,31,32,133,160})"
  unfolding isspace_def
  by (simp add: char_code[of c "CHR 0x09"] char_code[of c "CHR 0x0A"] char_code[of c "CHR 0x0B"]
      char_code[of c "CHR 0x0C"] char_code[of c "CHR 0x0D"] char_code[of c "CHR 0x1C"]
      char_code[of c "CHR 0x1D"] char_code[of c "CHR 0x1E"] char_code[of c "CHR 0x1F"]
      char_code[of c "CHR '' ''"] char_code[of c "CHR 0x85"] char_code[of c "CHR 0xA0"])

lemma of_char_lower:
  "(of_char (lower_char c) :: nat) =
     (if (65 \<le> (of_char c :: nat) \<and> (of_char c :: nat) \<le> 90) \<or>
         (192 \<le> (of_char c :: nat) \<and> (of_char c :: nat) \<le> 222 \<and> (of_char c :: nat) \<noteq> 215)
      then of_char c + 32 else of_char c)"
  by (simp add: lower_char_def Let_def)

lemma isspace_lower [simp]: "isspace (lower_char c) = isspace c"
  by (auto simp: isspace_code of_char_lower)

lemma lower_char_idem [simp]: "lower_char (lower_char c) = lower_char c"
proof -
  have "(of_char (lower_char (lower_char c)) :: nat) = of_char (lower_char c)"
    by (simp add: of_char_lower)
  then show ?thesis by simp
qed


lemma isspace_space [simp]: "isspace (CHR '' '')" by (simp add: isspace_def)
lemma not_isspace_sep [simp]: "\<not> isspace (CHR ''.'')" "\<not> isspace (CHR ''_'')" by (simp_all add: isspace_def)




























section \<open>Lemmas on the consolidation\<close>

lemma print_simps [simp]:
  "tree (print e w) = tree w" "cwd (print e w) = cwd w" "disk_free (print e w) = disk_free w"
  "stdout (print e w) = stdout w @ [e]"
  by (simp_all add: print_def)

lemma node_at_print [simp]: "node_at (print e w) p = node_at w p"
  by (simp add: node_at_def)

lemma exists_print [simp]: "os_path_exists (print e w) p = os_path_exists w p"
  by (simp add: os_path_exists_def)

lemma free_print [simp]: "get_free_space (print e w) p = get_free_space w p"
  by (simp add: get_free_space_def)

lemma select_target_print [simp]: "select_target (print e w) data cs = select_target w data cs"
  by (induction cs) (auto split: option.splits)

lemma needed_episodes_sum:
  "needed_episodes d eps acc = Some r \<Longrightarrow>
   r = acc + sum_list (map (\<lambda>sl. ep_total_size (hd (snd sl)))
                         (filter (\<lambda>sl. \<not> list_ex (\<lambda>c. ep_disk c = d) (snd sl)) eps))"
proof (induction eps arbitrary: acc)
  case Nil
  then show ?case by simp
next
  case (Cons sl eps)
  show ?case
  proof (cases "list_ex (\<lambda>c. ep_disk c = d) (snd sl)")
    case True
    with Cons show ?thesis by simp
  next
    case False
    with Cons.prems obtain c cs where c: "snd sl = c # cs" by (cases "snd sl") auto
    with False Cons.prems have "needed_episodes d eps (acc + ep_total_size c) = Some r" by simp
    from Cons.IH[OF this] False c show ?thesis by simp
  qed
qed

lemma needed_artifacts_sum:
  "needed_artifacts d arts acc =
     acc + sum_list (map art_size (filter (\<lambda>a. art_disk a \<noteq> d) arts))"
  unfolding needed_artifacts_def by (induction arts arbitrary: acc) auto

lemma bytes_needed_for_sum:
  "bytes_needed_for data d = Some bn \<Longrightarrow>
   bn = sum_list (map (\<lambda>sl. ep_total_size (hd (snd sl)))
                    (filter (\<lambda>sl. \<not> list_ex (\<lambda>c. ep_disk c = d) (snd sl)) (episodes data)))
      + sum_list (map art_size (filter (\<lambda>a. art_disk a \<noteq> d) (artifacts data)))"
  unfolding bytes_needed_for_def
  by (auto simp: needed_artifacts_sum dest: needed_episodes_sum)

lemma rejected_print [simp]: "rejected (print e w) data = rejected w data"
  by (rule ext) (simp add: rejected_def cong: option.case_cong)

lemma select_target_first:
  "select_target w data cs = Some (Some (d, f, bn)) \<Longrightarrow>
   \<exists>pre meta post. cs = pre @ (d, meta) # post \<and> f = real_folder meta \<and>
      bytes_needed_for data d = Some bn \<and> get_free_space w d - bn > MIN_FREE_BUFFER \<and>
      list_all (rejected w data) pre"
proof (induction cs)
  case Nil
  then show ?case by simp
next
  case (Cons cand cs)
  from Cons.prems obtain b where b: "bytes_needed_for data (fst cand) = Some b"
    by (auto split: option.splits)
  show ?case
  proof (cases "get_free_space w (fst cand) - b > MIN_FREE_BUFFER")
    case True
    with Cons.prems b have "d = fst cand" "f = real_folder (snd cand)" "bn = b" by auto
    with True b have "cand # cs = [] @ (d, snd cand) # cs \<and> f = real_folder (snd cand) \<and>
      bytes_needed_for data d = Some bn \<and> get_free_space w d - bn > MIN_FREE_BUFFER \<and>
      list_all (rejected w data) []" by simp
    then show ?thesis by blast
  next
    case False
    with Cons.prems b have "select_target w data cs = Some (Some (d, f, bn))" by simp
    from Cons.IH[OF this] obtain pre meta post where
      p: "cs = pre @ (d, meta) # post" "f = real_folder meta"
         "bytes_needed_for data d = Some bn" "get_free_space w d - bn > MIN_FREE_BUFFER"
         "list_all (rejected w data) pre" by blast
    have "rejected w data cand" using False b by (simp add: rejected_def)
    with p have "cand # cs = (cand # pre) @ (d, meta) # post \<and> f = real_folder meta \<and>
      bytes_needed_for data d = Some bn \<and> get_free_space w d - bn > MIN_FREE_BUFFER \<and>
      list_all (rejected w data) (cand # pre)" by simp
    then show ?thesis by blast
  qed
qed

lemma select_target_none:
  "list_all (rejected w data) cs \<Longrightarrow> select_target w data cs = Some None"
  by (induction cs) (auto simp: rejected_def split: option.splits)

lemma candidates_sorted:
  "sorted_wrt (\<lambda>a b. total_size (snd a) \<ge> total_size (snd b)) (candidates data)"
proof -
  have "sorted (map (\<lambda>x. - total_size (snd x)) (candidates data))"
    unfolding candidates_def by (rule sorted_sort_key)
  then show ?thesis by (simp add: sorted_map)
qed

lemma candidates_stable:
  "filter (\<lambda>c. total_size (snd c) = k) (candidates data) =
   filter (\<lambda>c. total_size (snd c) = k) (disks data)"
  using sort_key_stable[of "\<lambda>x. - total_size (snd x)" "- k" "disks data"]
  by (simp add: candidates_def)

lemma process_series_no_space:
  assumes "length (disks data) > 1" "\<not> has_bad_dupe data"
    "list_all (rejected w data) (candidates data)"
  shows "process_series execute data (w, sk) =
     Some (print (SkipNotice (no_space_msg data))
             (print (Processing (display data) (length (disks data))) w),
           sk @ [no_space_msg data])"
proof -
  have "list_all (rejected (print (Processing (display data) (length (disks data))) w) data) (candidates data)"
    using assms(3) by simp
  from select_target_none[OF this] assms(1,2) show ?thesis
    by (simp add: process_series_def skip_def)
qed

lemma process_series_target:
  assumes "length (disks data) > 1" "\<not> has_bad_dupe data"
    "select_target w data (candidates data) = Some (Some (d, f, bn))" "d \<noteq> []"
  shows "process_series execute data (w, sk) =
     map_option (\<lambda>w'. (w', sk))
       (consolidate execute data d f (print (Processing (display data) (length (disks data))) w))"
  using assms by (simp add: process_series_def)

lemma card_gt1: "finite S \<Longrightarrow> (1 < card S) = (\<exists>a\<in>S. \<exists>b\<in>S. a \<noteq> b)"
proof -
  assume f: "finite S"
  have "(1 < card S) = (\<not> card S \<le> Suc 0)" by auto
  also have "\<dots> = (\<not> (\<forall>a\<in>S. \<forall>b\<in>S. a = b))" using card_le_Suc0_iff_eq[OF f] by simp
  finally show ?thesis by blast
qed

lemma sizes_differ_iff:
  "(length cs > 1 \<and> card (set (map ep_size cs)) > 1) =
   (\<exists>c1 \<in> set cs. \<exists>c2 \<in> set cs. ep_size c1 \<noteq> ep_size c2)"
proof -
  have 1: "(1 < card (set (map ep_size cs))) = (\<exists>c1 \<in> set cs. \<exists>c2 \<in> set cs. ep_size c1 \<noteq> ep_size c2)"
    using card_gt1[of "ep_size ` set cs"] by auto
  have "card (set (map ep_size cs)) \<le> length cs"
    by (metis card_length length_map)
  then have "1 < card (set (map ep_size cs)) \<Longrightarrow> length cs > 1" by linarith
  then show ?thesis unfolding 1[symmetric] by blast
qed

lemma has_bad_dupe_iff:
  "has_bad_dupe data =
     (\<exists>sl \<in> set (episodes data). \<exists>c1 \<in> set (snd sl). \<exists>c2 \<in> set (snd sl). ep_size c1 \<noteq> ep_size c2)"
  unfolding has_bad_dupe_def list_ex_iff sizes_differ_iff ..

lemma msgs_differ: "conflict_msg data \<noteq> no_space_msg data"
  by (simp add: conflict_msg_def no_space_msg_def)

lemma process_series_conflict:
  "length (disks data) > 1 \<Longrightarrow> has_bad_dupe data \<Longrightarrow>
   process_series execute data (w, sk) =
     Some (print (SkipNotice (conflict_msg data))
             (print (Processing (display data) (length (disks data))) w),
           sk @ [conflict_msg data])"
  by (simp add: process_series_def skip_def)

lemma process_series_no_conflict:
  assumes "\<not> has_bad_dupe data" "process_series execute data (w, sk) = Some (w', sk')"
  shows "sk' \<noteq> sk @ [conflict_msg data]"
  using assms msgs_differ[of data]
  by (auto simp: process_series_def skip_def Let_def split: if_splits option.splits)

lemma safe_move_collision:
  "os_path_exists w src \<Longrightarrow> os_path_exists w (os_path_join dest_dir (os_path_basename src)) \<Longrightarrow>
   safe_move w src dest_dir dry_run =
     (print (AbortCollision (os_path_join dest_dir (os_path_basename src))) w, False)"
  by (simp add: safe_move_def)

lemma reconcile_episode_collision:
  assumes "filter (\<lambda>c. ep_disk c = target_disk) copies = []"
    "filter (\<lambda>c. ep_disk c \<noteq> target_disk) copies = src # redundant"
    "os_path_exists w (ep_path src)"
    "os_path_exists w (os_path_join (os_path_join target_root_full (ep_rel_dir src))
                         (os_path_basename (ep_path src)))"
  shows "reconcile_episode execute target_disk target_root_full ((s, e), copies) w =
     Some (print (AbortMoveFailed s e)
            (print (AbortCollision (os_path_join (os_path_join target_root_full (ep_rel_dir src))
                                      (os_path_basename (ep_path src)))) w))"
  using assms by (simp add: reconcile_episode_def safe_move_collision)

section \<open>Lemmas on the scanner\<close>

lemma map_of_dict_append:
  "map_of (dict_append k v d) k = Some ((case map_of d k of None \<Rightarrow> [] | Some vs \<Rightarrow> vs) @ [v])"
  by (simp add: dict_append_def update_conv')

lemma episodes_add_total_size [simp]: "episodes (add_total_size r n e) = episodes e"
  by (simp add: add_total_size_def Let_def)

lemma claim_group_appends:
  assumes "sort_key (\<lambda>x. - fe_size x) (snd g) = cand # rest" "fe_size cand > MIN_VIDEO_SIZE"
  shows "\<exists>entry. map_of (episodes (fst (claim_group w dirpath root_path rel_dir um g (lib_entry, claimed)))) (fst g)
            = Some ((case map_of (episodes lib_entry) (fst g) of None \<Rightarrow> [] | Some cs \<Rightarrow> cs) @ [entry]) \<and>
          ep_disk entry = root_path \<and> ep_size entry = fe_size cand \<and> ep_path entry = fe_path cand"
  using assms
  by (simp add: claim_group_def map_of_dict_append split: prod.splits)

lemma artifacts_add_total_size [simp]: "artifacts (add_total_size r n e) = artifacts e"
  by (simp add: add_total_size_def Let_def)

lemma total_add_total_size [simp]:
  "total_size (get_disk (disks (add_total_size r n e)) r) = total_size (get_disk (disks e) r) + n"
  by (simp add: add_total_size_def Let_def get_disk_def update_conv')

lemma artifacts_claim_group [simp]:
  "artifacts (fst (claim_group w dirpath root_path rel_dir um g st)) = artifacts (fst st)"
  by (cases st) (simp add: claim_group_def split: list.splits prod.splits)

lemma artifacts_fold_claim_group [simp]:
  "artifacts (fst (fold (claim_group w dirpath root_path rel_dir um) gs st)) = artifacts (fst st)"
  by (induction gs arbitrary: st) simp_all

lemma artifacts_claim_groups [simp]:
  "artifacts (fst (claim_groups w root_path dirpath rel_dir filenames lib_entry)) = artifacts lib_entry"
  by (simp add: claim_groups_def split: prod.splits)












lemma not_digit_E [simp]: "\<not> isdigit (CHR ''E'')" "\<not> isdigit (CHR ''e'')"
  by (simp_all add: isdigit_def)

lemma match_at_decomp:
  assumes "match_at str = Some (s, e, n)"
  shows "\<exists>c d1 ec d2 r. str = c # d1 @ ec # d2 @ r \<and> (c = CHR ''S'' \<or> c = CHR ''s'') \<and>
           d1 \<noteq> [] \<and> (\<forall>x\<in>set d1. isdigit x) \<and> (ec = CHR ''E'' \<or> ec = CHR ''e'') \<and>
           d2 \<noteq> [] \<and> (\<forall>x\<in>set d2. isdigit x) \<and> n = length d1 + length d2 + 2"
proof -
  from assms obtain c r where str: "str = c # r" by (cases str) (auto simp: match_at_def)
  from assms str have c: "c = CHR ''S'' \<or> c = CHR ''s''"
    by (auto simp: match_at_def split: if_splits)
  let ?d1 = "takeWhile isdigit r"
  from assms str c have d1: "?d1 \<noteq> []"
    by (auto simp: match_at_def Let_def split: if_splits)
  from assms str c d1 obtain ec r2 where r2: "dropWhile isdigit r = ec # r2"
    by (cases "dropWhile isdigit r") (auto simp: match_at_def Let_def split: if_splits)
  from assms str c d1 r2 have ec: "ec = CHR ''E'' \<or> ec = CHR ''e''"
    by (auto simp: match_at_def Let_def split: if_splits)
  let ?d2 = "takeWhile isdigit r2"
  from assms str c d1 r2 ec have d2: "?d2 \<noteq> []" and n: "n = length ?d1 + length ?d2 + 2"
    by (auto simp: match_at_def Let_def split: if_splits)
  have "r = ?d1 @ ec # r2" using r2 takeWhile_dropWhile_id[of isdigit r] by simp
  moreover have "r2 = ?d2 @ dropWhile isdigit r2" by simp
  ultimately have "str = c # ?d1 @ ec # ?d2 @ dropWhile isdigit r2" using str by simp
  moreover have "\<forall>x\<in>set ?d1. isdigit x" "\<forall>x\<in>set ?d2. isdigit x"
    by (auto dest: set_takeWhileD)
  ultimately show ?thesis using c d1 ec d2 n by blast
qed

lemma match_at_compose:
  assumes "c = CHR ''S'' \<or> c = CHR ''s''" "d1 \<noteq> []" "\<forall>x\<in>set d1. isdigit x"
    "ec = CHR ''E'' \<or> ec = CHR ''e''" "d2 \<noteq> []" "\<forall>x\<in>set d2. isdigit x"
  shows "match_at (c # d1 @ ec # d2 @ r) \<noteq> None"
proof -
  have ne: "\<not> isdigit ec" using assms(4) by auto
  have t1: "takeWhile isdigit (d1 @ ec # d2 @ r) = d1"
    using assms(3) ne by (simp add: takeWhile_append2)
  have t2: "dropWhile isdigit (d1 @ ec # d2 @ r) = ec # d2 @ r"
    using assms(3) ne by (simp add: dropWhile_append2)
  have t3: "takeWhile isdigit (d2 @ r) = d2 @ takeWhile isdigit r"
    using assms(6) by (simp add: takeWhile_append2)
  show ?thesis using assms(1,2,4,5) by (auto simp: match_at_def t1 t2 t3 Let_def)
qed

lemma match_at_prefix:
  assumes "match_at str = Some (s, e, n)" "startswith g (take n str)"
  shows "match_at g \<noteq> None"
proof -
  from match_at_decomp[OF assms(1)] obtain c d1 ec d2 r where
    d: "str = c # d1 @ ec # d2 @ r" "c = CHR ''S'' \<or> c = CHR ''s''"
       "d1 \<noteq> []" "\<forall>x\<in>set d1. isdigit x" "ec = CHR ''E'' \<or> ec = CHR ''e''"
       "d2 \<noteq> []" "\<forall>x\<in>set d2. isdigit x" "n = length d1 + length d2 + 2" by blast
  have "take n str = c # d1 @ ec # d2" using d(1,8) by simp
  with assms(2) have "take (length (c # d1 @ ec # d2)) g = c # d1 @ ec # d2"
    by (simp add: startswith_def)
  then have "g = (c # d1 @ ec # d2) @ drop (length (c # d1 @ ec # d2)) g"
    by (metis append_take_drop_id)
  then obtain r' where "g = c # d1 @ ec # d2 @ r'" by auto
  with match_at_compose[OF d(2,3,4,5,6,7)] show ?thesis by simp
qed

lemma pattern_search_prefix:
  "pattern_search f = Some (s, e, n) \<Longrightarrow> startswith g (take n f) \<Longrightarrow> pattern_search g \<noteq> None"
proof (induction f arbitrary: n g)
  case Nil
  then show ?case by simp
next
  case (Cons c cs)
  show ?case
  proof (cases "match_at (c # cs)")
    case (Some m)
    with Cons.prems(1) have "match_at (c # cs) = Some (s, e, n)" by simp
    from match_at_prefix[OF this Cons.prems(2)] obtain m' where m': "match_at g = Some m'" by auto
    then have "g \<noteq> []" by (auto simp: match_at_def)
    then obtain a b where "g = a # b" by (cases g) auto
    with m' show ?thesis by simp
  next
    case None
    with Cons.prems(1) obtain n' where n': "pattern_search cs = Some (s, e, n')" "n = Suc n'"
      by (auto split: option.splits)
    from Cons.prems(2) n'(2) have "take (length (c # take n' cs)) g = c # take n' cs"
      by (simp add: startswith_def)
    then obtain b where g: "g = c # b" "take (length (take n' cs)) b = take n' cs"
      by (cases g) auto
    then have "startswith b (take n' cs)" by (simp add: startswith_def)
    from Cons.IH[OF n'(1) this] have "pattern_search b \<noteq> None" .
    then show ?thesis using g(1) by (auto split: option.splits)
  qed
qed

lemma unmatched_never_prefixed:
  "pattern_search f = Some (s, e, m_end) \<Longrightarrow> pattern_search um_f = None \<Longrightarrow>
   \<not> startswith um_f (take m_end f)"
  using pattern_search_prefix by blast


lemma select_target_complete:
  "list_all (rejected w data) pre \<Longrightarrow> bytes_needed_for data d = Some bn \<Longrightarrow>
   get_free_space w d - bn > MIN_FREE_BUFFER \<Longrightarrow>
   select_target w data (pre @ (d, meta) # post) = Some (Some (d, real_folder meta, bn))"
  by (induction pre) (auto simp: rejected_def split: option.splits)

section \<open>Name normalisation\<close>



section \<open>Conflicting duplicates\<close>

text \<open>
  Claim C1. For a series found on more than one root: if some (season, episode) slot has
  more than one copy and more than one distinct recorded size among its copies, the series
  is skipped with the conflicting-duplicates message, the file tree is left as it was and
  nothing but the two notices is printed; if in every slot with several copies all copies
  have the same size, the conflict check does not fire and the series is not reported as
  a conflict.
\<close>

theorem conflict_check:
  assumes "length (disks data) > 1"
  shows
  "((\<exists>sl \<in> set (episodes data). length (snd sl) > 1 \<and> card (ep_size ` set (snd sl)) > 1) \<longrightarrow>
      (\<exists>w'. process_series execute data (w, sk) = Some (w', sk @ [conflict_msg data]) \<and>
            tree w' = tree w \<and>
            stdout w' = stdout w @ [Processing (display data) (length (disks data)),
                                    SkipNotice (conflict_msg data)])) \<and>
   ((\<forall>sl \<in> set (episodes data). length (snd sl) > 1 \<longrightarrow>
        (\<forall>c1 \<in> set (snd sl). \<forall>c2 \<in> set (snd sl). ep_size c1 = ep_size c2)) \<longrightarrow>
      \<not> has_bad_dupe data \<and>
      (\<forall>w' sk'. process_series execute data (w, sk) = Some (w', sk') \<longrightarrow>
                 sk' \<noteq> sk @ [conflict_msg data]))"
proof (intro conjI impI)
  assume "\<exists>sl \<in> set (episodes data). length (snd sl) > 1 \<and> card (ep_size ` set (snd sl)) > 1"
  then have "has_bad_dupe data" by (simp add: has_bad_dupe_def list_ex_iff)
  from process_series_conflict[OF assms this, of execute w sk]
  show "\<exists>w'. process_series execute data (w, sk) = Some (w', sk @ [conflict_msg data]) \<and>
            tree w' = tree w \<and>
            stdout w' = stdout w @ [Processing (display data) (length (disks data)),
                                    SkipNotice (conflict_msg data)]"
    by simp
next
  assume eq: "\<forall>sl \<in> set (episodes data). length (snd sl) > 1 \<longrightarrow>
        (\<forall>c1 \<in> set (snd sl). \<forall>c2 \<in> set (snd sl). ep_size c1 = ep_size c2)"
  show nb: "\<not> has_bad_dupe data"
  proof
    assume "has_bad_dupe data"
    then obtain sl c1 c2 where "sl \<in> set (episodes data)" "c1 \<in> set (snd sl)" "c2 \<in> set (snd sl)"
      "ep_size c1 \<noteq> ep_size c2" "length (snd sl) > 1"
      unfolding has_bad_dupe_def list_ex_iff sizes_differ_iff[symmetric]
      using sizes_differ_iff by blast
    with eq show False by blast
  qed
  show "\<forall>w' sk'. process_series execute data (w, sk) = Some (w', sk') \<longrightarrow>
                 sk' \<noteq> sk @ [conflict_msg data]"
    using process_series_no_conflict[OF nb] by blast
qed



theorem conflict_check_witness:
  "length (disks bar_series) > 1 \<and>
   (\<exists>sl \<in> set (episodes bar_series). length (snd sl) > 1 \<and> card (ep_size ` set (snd sl)) > 1) \<and>
   (\<exists>w'. process_series True bar_series (bar_world, []) = Some (w', [] @ [conflict_msg bar_series]) \<and>
         tree w' = tree bar_world \<and>
         stdout w' = stdout bar_world @ [Processing (display bar_series) (length (disks bar_series)),
                                         SkipNotice (conflict_msg bar_series)]) \<and>
   length (disks foo_series) > 1 \<and>
   list_all (\<lambda>sl. list_all (\<lambda>c1. list_all (\<lambda>c2. ep_size c1 = ep_size c2) (snd sl)) (snd sl))
     (episodes foo_series) \<and>
   \<not> has_bad_dupe foo_series"
proof -
  have b1: "length (disks bar_series) > 1" by code_simp
  have b2: "\<exists>sl \<in> set (episodes bar_series). length (snd sl) > 1 \<and> card (ep_size ` set (snd sl)) > 1"
    by code_simp
  have f1: "length (disks foo_series) > 1" by code_simp
  have f2: "list_all (\<lambda>sl. list_all (\<lambda>c1. list_all (\<lambda>c2. ep_size c1 = ep_size c2) (snd sl)) (snd sl))
     (episodes foo_series)"
    by code_simp
  have f3: "\<forall>sl \<in> set (episodes foo_series). length (snd sl) > 1 \<longrightarrow>
        (\<forall>c1 \<in> set (snd sl). \<forall>c2 \<in> set (snd sl). ep_size c1 = ep_size c2)"
    using f2 unfolding list_all_iff by blast
  note bar = conflict_check[OF b1, of True bar_world "[]", THEN conjunct1, THEN mp, OF b2]
  note foo = conflict_check[OF f1, of True foo_world "[]", THEN conjunct2, THEN mp, OF f3, THEN conjunct1]
  show ?thesis
    apply (intro conjI)
         apply (rule b1)
        apply (rule b2)
       apply (rule bar)
      apply (rule f1)
     apply (rule f2)
    apply (rule foo)
    done
qed

section \<open>Conflicting duplicates on one root\<close>

text \<open>
  Claim C10. The conflict check does not look at the roots of the copies: for a series
  found on more than one root, two copies of one (season, episode) slot that lie on the
  same root and have different recorded sizes make the series skipped with the
  conflicting-duplicates message, the file tree unchanged. This is so because the scanner
  appends the copy it promotes in a directory to the list of that slot, after whatever
  copies the list already holds, whichever root they came from.
\<close>

theorem same_root_conflict:
  assumes "length (disks data) > 1"
    and "sl \<in> set (episodes data)" "c1 \<in> set (snd sl)" "c2 \<in> set (snd sl)"
    and "ep_disk c1 = ep_disk c2" "ep_size c1 \<noteq> ep_size c2"
  shows
  "(\<exists>w'. process_series execute data (w, sk) = Some (w', sk @ [conflict_msg data]) \<and>
         tree w' = tree w) \<and>
   (snd g \<noteq> [] \<longrightarrow> fe_size (hd (sort_key (\<lambda>x. - fe_size x) (snd g))) > MIN_VIDEO_SIZE \<longrightarrow>
      (\<exists>entry. map_of (episodes (fst (claim_group w0 dirpath root_path rel_dir um g (lib_entry, claimed)))) (fst g)
            = Some ((case map_of (episodes lib_entry) (fst g) of None \<Rightarrow> [] | Some cs \<Rightarrow> cs) @ [entry]) \<and>
          ep_disk entry = root_path \<and>
          ep_size entry = fe_size (hd (sort_key (\<lambda>x. - fe_size x) (snd g)))))"
proof (intro conjI impI)
  have "has_bad_dupe data" unfolding has_bad_dupe_iff using assms(2,3,4,6) by blast
  from process_series_conflict[OF assms(1) this, of execute w sk]
  show "\<exists>w'. process_series execute data (w, sk) = Some (w', sk @ [conflict_msg data]) \<and> tree w' = tree w"
    by simp
next
  assume a: "snd g \<noteq> []" "fe_size (hd (sort_key (\<lambda>x. - fe_size x) (snd g))) > MIN_VIDEO_SIZE"
  from a(1) have "sort_key (\<lambda>x. - fe_size x) (snd g) \<noteq> []"
    by (metis length_0_conv length_sort)
  then obtain cand rest where c: "sort_key (\<lambda>x. - fe_size x) (snd g) = cand # rest"
    by (cases "sort_key (\<lambda>x. - fe_size x) (snd g)") auto
  with a(2) have "fe_size cand > MIN_VIDEO_SIZE" by simp
  from claim_group_appends[OF c this, of w0 dirpath root_path rel_dir um lib_entry claimed] c
  show "\<exists>entry. map_of (episodes (fst (claim_group w0 dirpath root_path rel_dir um g (lib_entry, claimed)))) (fst g)
            = Some ((case map_of (episodes lib_entry) (fst g) of None \<Rightarrow> [] | Some cs \<Rightarrow> cs) @ [entry]) \<and>
          ep_disk entry = root_path \<and>
          ep_size entry = fe_size (hd (sort_key (\<lambda>x. - fe_size x) (snd g)))"
    by auto
qed

theorem same_root_conflict_witness:
  "length (disks dup_series) > 1 \<and>
   list_ex (\<lambda>sl. list_ex (\<lambda>c1. list_ex (\<lambda>c2. ep_disk c1 = ep_disk c2 \<and> ep_size c1 \<noteq> ep_size c2)
                                    (snd sl)) (snd sl)) (episodes dup_series) \<and>
   map (\<lambda>sl. (fst sl, map (\<lambda>c. (ep_path c, ep_disk c, ep_size c)) (snd sl))) (episodes dup_series) =
     [((1, 1), [(''/a/Show/Season 1/S01E01.mkv'', ''/a'', 62914560),
                (''/a/Show/Extras/S01E01.mkv'', ''/a'', 73400320)]),
      ((1, 2), [(''/b/show/S01E02.mkv'', ''/b'', 62914560)])] \<and>
   (\<exists>w'. process_series True dup_series (dup_world, []) = Some (w', [] @ [conflict_msg dup_series]) \<and>
         tree w' = tree dup_world) \<and>
   snd extras_group \<noteq> [] \<and>
   fe_size (hd (sort_key (\<lambda>x. - fe_size x) (snd extras_group))) > MIN_VIDEO_SIZE \<and>
   (\<exists>entry. map_of (episodes (fst (claim_group dup_world ''/a/Show/Extras'' ''/a'' ''Extras'' []
                                      extras_group (season1_scanned, {})))) (fst extras_group)
        = Some ((case map_of (episodes season1_scanned) (fst extras_group) of
                   None \<Rightarrow> [] | Some cs \<Rightarrow> cs) @ [entry]) \<and>
       ep_disk entry = ''/a'' \<and>
       ep_size entry = fe_size (hd (sort_key (\<lambda>x. - fe_size x) (snd extras_group))))"
proof -
  have d1: "length (disks dup_series) > 1" by code_simp
  have d2: "list_ex (\<lambda>sl. list_ex (\<lambda>c1. list_ex (\<lambda>c2. ep_disk c1 = ep_disk c2 \<and> ep_size c1 \<noteq> ep_size c2)
                                    (snd sl)) (snd sl)) (episodes dup_series)"
    by code_simp
  have d3: "map (\<lambda>sl. (fst sl, map (\<lambda>c. (ep_path c, ep_disk c, ep_size c)) (snd sl))) (episodes dup_series) =
     [((1, 1), [(''/a/Show/Season 1/S01E01.mkv'', ''/a'', 62914560),
                (''/a/Show/Extras/S01E01.mkv'', ''/a'', 73400320)]),
      ((1, 2), [(''/b/show/S01E02.mkv'', ''/b'', 62914560)])]"
    by code_simp
  from d2 obtain sl c1 c2 where s: "sl \<in> set (episodes dup_series)" "c1 \<in> set (snd sl)"
    "c2 \<in> set (snd sl)" "ep_disk c1 = ep_disk c2" "ep_size c1 \<noteq> ep_size c2"
    unfolding list_ex_iff by blast
  note t = same_root_conflict[OF d1 s, of True dup_world "[]" extras_group dup_world
      "''/a/Show/Extras''" "''/a''" "''Extras''" "[]" season1_scanned "{}"]
  have g1: "snd extras_group \<noteq> []" by code_simp
  have g2: "fe_size (hd (sort_key (\<lambda>x. - fe_size x) (snd extras_group))) > MIN_VIDEO_SIZE"
    by code_simp
  note u = t[THEN conjunct2, THEN mp, THEN mp, OF g1 g2]
  show ?thesis
    apply (intro conjI)
          apply (rule d1)
         apply (rule d2)
        apply (rule d3)
       apply (rule t[THEN conjunct1])
      apply (rule g1)
     apply (rule g2)
    apply (rule u)
    done
qed

section \<open>Target selection\<close>

text \<open>
  Claim C2. For a series that passed the conflict check: the candidates are the roots of
  the series in descending order of their per-root total, equal totals in enumeration
  order. The selection loop returns a root exactly when that root is the first candidate
  of the list that qualifies: every candidate before it was evaluated and rejected, and for
  it the free space minus the import size exceeds the buffer. The import size is the sum
  of the aggregate sizes of the slots with no copy on that root plus the sizes of the
  artifacts not on that root. The series is then consolidated onto that root (unless the
  root is the empty string, which \<^verbatim>\<open>if not target_disk\<close> takes for no target). If every
  candidate is rejected, the series is skipped with the no-free-space message and the file
  tree is left as it was.
\<close>

theorem target_selection:
  assumes "length (disks data) > 1" "\<not> has_bad_dupe data"
  shows
  "sorted_wrt (\<lambda>a b. total_size (snd a) \<ge> total_size (snd b)) (candidates data) \<and>
   (\<forall>k. filter (\<lambda>c. total_size (snd c) = k) (candidates data) =
        filter (\<lambda>c. total_size (snd c) = k) (disks data)) \<and>
   (select_target w data (candidates data) = Some (Some (d, f, bn))) =
      (\<exists>pre meta post. candidates data = pre @ (d, meta) # post \<and> f = real_folder meta \<and>
          list_all (rejected w data) pre \<and> bytes_needed_for data d = Some bn \<and>
          get_free_space w d - bn > MIN_FREE_BUFFER) \<and>
   (select_target w data (candidates data) = Some (Some (d, f, bn)) \<longrightarrow>
      get_free_space w d - bn > MIN_FREE_BUFFER \<and>
      bn = sum_list (map (\<lambda>sl. ep_total_size (hd (snd sl)))
                       (filter (\<lambda>sl. \<not> list_ex (\<lambda>c. ep_disk c = d) (snd sl)) (episodes data)))
         + sum_list (map art_size (filter (\<lambda>a. art_disk a \<noteq> d) (artifacts data))) \<and>
      (\<exists>pre meta post. candidates data = pre @ (d, meta) # post \<and> f = real_folder meta \<and>
          list_all (rejected w data) pre) \<and>
      (d \<noteq> [] \<longrightarrow>
         process_series execute data (w, sk) =
           map_option (\<lambda>w'. (w', sk))
             (consolidate execute data d f
                (print (Processing (display data) (length (disks data))) w)))) \<and>
   (list_all (rejected w data) (candidates data) \<longrightarrow>
      (\<exists>w'. process_series execute data (w, sk) = Some (w', sk @ [no_space_msg data]) \<and>
            tree w' = tree w \<and>
            stdout w' = stdout w @ [Processing (display data) (length (disks data)),
                                    SkipNotice (no_space_msg data)]))"
proof (intro conjI impI allI)
  show "sorted_wrt (\<lambda>a b. total_size (snd a) \<ge> total_size (snd b)) (candidates data)"
    by (rule candidates_sorted)
next
  fix k
  show "filter (\<lambda>c. total_size (snd c) = k) (candidates data) =
        filter (\<lambda>c. total_size (snd c) = k) (disks data)"
    by (rule candidates_stable)
next
  show "(select_target w data (candidates data) = Some (Some (d, f, bn))) =
      (\<exists>pre meta post. candidates data = pre @ (d, meta) # post \<and> f = real_folder meta \<and>
          list_all (rejected w data) pre \<and> bytes_needed_for data d = Some bn \<and>
          get_free_space w d - bn > MIN_FREE_BUFFER)"
  proof
    assume "select_target w data (candidates data) = Some (Some (d, f, bn))"
    from select_target_first[OF this]
    show "\<exists>pre meta post. candidates data = pre @ (d, meta) # post \<and> f = real_folder meta \<and>
          list_all (rejected w data) pre \<and> bytes_needed_for data d = Some bn \<and>
          get_free_space w d - bn > MIN_FREE_BUFFER" by blast
  next
    assume "\<exists>pre meta post. candidates data = pre @ (d, meta) # post \<and> f = real_folder meta \<and>
          list_all (rejected w data) pre \<and> bytes_needed_for data d = Some bn \<and>
          get_free_space w d - bn > MIN_FREE_BUFFER"
    then obtain pre meta post where p: "candidates data = pre @ (d, meta) # post" "f = real_folder meta"
          "list_all (rejected w data) pre" "bytes_needed_for data d = Some bn"
          "get_free_space w d - bn > MIN_FREE_BUFFER" by blast
    from select_target_complete[OF p(3,4,5), of meta post]
    show "select_target w data (candidates data) = Some (Some (d, f, bn))"
      unfolding p(1) p(2) .
  qed
next
  assume s: "select_target w data (candidates data) = Some (Some (d, f, bn))"
  from select_target_first[OF s] obtain pre meta post where
    p: "candidates data = pre @ (d, meta) # post" "f = real_folder meta"
       "bytes_needed_for data d = Some bn" "get_free_space w d - bn > MIN_FREE_BUFFER"
       "list_all (rejected w data) pre" by blast
  show "get_free_space w d - bn > MIN_FREE_BUFFER" by (rule p(4))
  show "bn = sum_list (map (\<lambda>sl. ep_total_size (hd (snd sl)))
                       (filter (\<lambda>sl. \<not> list_ex (\<lambda>c. ep_disk c = d) (snd sl)) (episodes data)))
         + sum_list (map art_size (filter (\<lambda>a. art_disk a \<noteq> d) (artifacts data)))"
    by (rule bytes_needed_for_sum[OF p(3)])
  show "\<exists>pre meta post. candidates data = pre @ (d, meta) # post \<and> f = real_folder meta \<and>
          list_all (rejected w data) pre"
    using p(1,2,5) by blast
  assume "d \<noteq> []"
  from process_series_target[OF assms s this]
  show "process_series execute data (w, sk) =
           map_option (\<lambda>w'. (w', sk))
             (consolidate execute data d f
                (print (Processing (display data) (length (disks data))) w))" .
next
  assume "list_all (rejected w data) (candidates data)"
  from process_series_no_space[OF assms this, of execute sk]
  show "\<exists>w'. process_series execute data (w, sk) = Some (w', sk @ [no_space_msg data]) \<and>
            tree w' = tree w \<and>
            stdout w' = stdout w @ [Processing (display data) (length (disks data)),
                                    SkipNotice (no_space_msg data)]"
    by simp
qed

theorem target_selection_witness:
  "length (disks baz_series) > 1 \<and> \<not> has_bad_dupe baz_series \<and>
   map (\<lambda>c. (fst c, total_size (snd c))) (candidates baz_series) =
     [(''/a'', 230686720), (''/b'', 104859648)] \<and>
   candidates baz_series = [hd (candidates baz_series)] @ (''/b'', snd (candidates baz_series ! 1)) # [] \<and>
   ''baz'' = real_folder (snd (candidates baz_series ! 1)) \<and>
   list_all (rejected baz_world baz_series) [hd (candidates baz_series)] \<and>
   bytes_needed_for baz_series ''/b'' = Some 230686720 \<and>
   get_free_space baz_world ''/b'' - 230686720 > MIN_FREE_BUFFER \<and>
   select_target baz_world baz_series (candidates baz_series) = Some (Some (''/b'', ''baz'', 230686720)) \<and>
   ''/b'' \<noteq> [] \<and>
   process_series False baz_series (baz_world, []) =
           map_option (\<lambda>w'. (w', []))
             (consolidate False baz_series ''/b'' ''baz''
                (print (Processing (display baz_series) (length (disks baz_series))) baz_world)) \<and>
   list_all (rejected baz_world_full baz_series) (candidates baz_series) \<and>
   (\<exists>w'. process_series True baz_series (baz_world_full, []) = Some (w', [] @ [no_space_msg baz_series]) \<and>
            tree w' = tree baz_world_full \<and>
            stdout w' = stdout baz_world_full @ [Processing (display baz_series) (length (disks baz_series)),
                                    SkipNotice (no_space_msg baz_series)])"
proof -
  have h1: "length (disks baz_series) > 1" by code_simp
  have h2: "\<not> has_bad_dupe baz_series" by code_simp
  have h3: "map (\<lambda>c. (fst c, total_size (snd c))) (candidates baz_series) =
     [(''/a'', 230686720), (''/b'', 104859648)]" by code_simp
  have c1: "candidates baz_series = [hd (candidates baz_series)] @ (''/b'', snd (candidates baz_series ! 1)) # []"
    by code_simp
  have c2: "''baz'' = real_folder (snd (candidates baz_series ! 1))" by code_simp
  have c3: "list_all (rejected baz_world baz_series) [hd (candidates baz_series)]" by code_simp
  have c4: "bytes_needed_for baz_series ''/b'' = Some 230686720" by code_simp
  have c5: "get_free_space baz_world ''/b'' - 230686720 > MIN_FREE_BUFFER" by code_simp
  have h5: "list_all (rejected baz_world_full baz_series) (candidates baz_series)" by code_simp
  have h6: "''/b'' \<noteq> []" by simp
  note t = target_selection[OF h1 h2, of baz_world "''/b''" "''baz''" 230686720 False "[]"]
  have ex: "\<exists>pre meta post. candidates baz_series = pre @ (''/b'', meta) # post \<and> ''baz'' = real_folder meta \<and>
          list_all (rejected baz_world baz_series) pre \<and> bytes_needed_for baz_series ''/b'' = Some 230686720 \<and>
          get_free_space baz_world ''/b'' - 230686720 > MIN_FREE_BUFFER"
    using c1 c2 c3 c4 c5 by blast
  have h4: "select_target baz_world baz_series (candidates baz_series) = Some (Some (''/b'', ''baz'', 230686720))"
    using t[THEN conjunct2, THEN conjunct2, THEN conjunct1] ex by (rule iffD2)
  note t4 = t[THEN conjunct2, THEN conjunct2, THEN conjunct2, THEN conjunct1, THEN mp, OF h4]
  note u = target_selection[OF h1 h2, of baz_world_full _ _ _ True "[]",
      THEN conjunct2, THEN conjunct2, THEN conjunct2, THEN conjunct2, THEN mp, OF h5]
  show ?thesis
    apply (intro conjI)
                apply (rule h1)
               apply (rule h2)
              apply (rule h3)
             apply (rule c1)
            apply (rule c2)
           apply (rule c3)
          apply (rule c4)
         apply (rule c5)
        apply (rule h4)
       apply (rule h6)
      apply (rule t4[THEN conjunct2, THEN conjunct2, THEN conjunct2, THEN mp, OF h6])
     apply (rule h5)
    apply (rule u)
    done
qed

section \<open>A collision of the safe transfer\<close>

text \<open>
  Claim C5. When an episode has no copy on the target and the file its first copy would
  become at the destination already exists, the safe transfer is aborted and reports the
  collision, in both modes; the episode's step leaves the file tree as it was, so the file
  at the destination is not overwritten and neither the copy, nor its companions, nor the
  redundant copies are moved or deleted; and the loop goes on with the remaining episodes
  from that state.
\<close>

theorem collision_is_local:
  assumes "filter (\<lambda>c. ep_disk c = target_disk) copies = []"
    and "filter (\<lambda>c. ep_disk c \<noteq> target_disk) copies = src # redundant"
    and "os_path_exists w (ep_path src)"
    and "dst = os_path_join (os_path_join target_root_full (ep_rel_dir src))
                 (os_path_basename (ep_path src))"
    and "os_path_exists w dst"
  shows
  "safe_move w (ep_path src) (os_path_join target_root_full (ep_rel_dir src)) (\<not> execute) =
     (print (AbortCollision dst) w, False) \<and>
   (\<exists>w'. reconcile_episode execute target_disk target_root_full ((s, e), copies) w = Some w' \<and>
         tree w' = tree w \<and> node_at w' dst = node_at w dst \<and>
         stdout w' = stdout w @ [AbortCollision dst, AbortMoveFailed s e] \<and>
         reconcile_episodes execute target_disk target_root_full (((s, e), copies) # rest) w =
           reconcile_episodes execute target_disk target_root_full rest w')"
proof -
  have 1: "safe_move w (ep_path src) (os_path_join target_root_full (ep_rel_dir src)) (\<not> execute) =
     (print (AbortCollision dst) w, False)"
    using assms(3,5) unfolding assms(4) by (rule safe_move_collision)
  have 2: "reconcile_episode execute target_disk target_root_full ((s, e), copies) w =
     Some (print (AbortMoveFailed s e) (print (AbortCollision dst) w))"
    using assms(1,2,3,5) unfolding assms(4) by (rule reconcile_episode_collision)
  show ?thesis using 1 2 by simp
qed

theorem collision_is_local_witness:
  "episodes col_series ! 0 = ((1, 1), snd (episodes col_series ! 0)) \<and>
   filter (\<lambda>c. ep_disk c = ''/b'') (snd (episodes col_series ! 0)) = [] \<and>
   filter (\<lambda>c. ep_disk c \<noteq> ''/b'') (snd (episodes col_series ! 0)) =
     hd (snd (episodes col_series ! 0)) # [] \<and>
   ep_path (hd (snd (episodes col_series ! 0))) = ''/a/Show/S01E01.mkv'' \<and>
   os_path_exists col_world (ep_path (hd (snd (episodes col_series ! 0)))) \<and>
   ''/b/show/S01E01.mkv'' =
      os_path_join (os_path_join ''/b/show'' (ep_rel_dir (hd (snd (episodes col_series ! 0)))))
        (os_path_basename (ep_path (hd (snd (episodes col_series ! 0))))) \<and>
   os_path_exists col_world ''/b/show/S01E01.mkv'' \<and>
   (\<exists>w'. reconcile_episode True ''/b'' ''/b/show'' ((1, 1), snd (episodes col_series ! 0)) col_world = Some w' \<and>
         tree w' = tree col_world \<and> node_at w' ''/b/show/S01E01.mkv'' = node_at col_world ''/b/show/S01E01.mkv'' \<and>
         stdout w' = stdout col_world @ [AbortCollision ''/b/show/S01E01.mkv'', AbortMoveFailed 1 1] \<and>
         reconcile_episodes True ''/b'' ''/b/show'' (((1, 1), snd (episodes col_series ! 0)) # tl (episodes col_series)) col_world =
           reconcile_episodes True ''/b'' ''/b/show'' (tl (episodes col_series)) w') \<and>
   map_option (\<lambda>st. (tree (fst st), stdout (fst st))) (process_series True col_series (col_world, [])) =
     Some (Dir [(''a'', Dir [(''Show'', Dir [(''S01E01.mkv'', File 62914560 1)])]),
                (''b'', Dir [(''show'', Dir [(''S01E01.mkv'', File 10485760 9),
                                             (''S01E02.mkv'', File 62914560 2),
                                             (''S01E03.mkv'', File 62914560 3)])])],
           [Processing ''Show'' 2, ConsolidatingTo ''/b'' ''show'',
            AbortCollision ''/b/show/S01E01.mkv'', AbortMoveFailed 1 1,
            Moved ''/a/Show/S01E03.mkv'' ''/b/show/S01E03.mkv'',
            CleaningSource ''/a/Show''])"
proof -
  have h0: "episodes col_series ! 0 = ((1, 1), snd (episodes col_series ! 0))" by code_simp
  have h1: "filter (\<lambda>c. ep_disk c = ''/b'') (snd (episodes col_series ! 0)) = []" by code_simp
  have h2: "filter (\<lambda>c. ep_disk c \<noteq> ''/b'') (snd (episodes col_series ! 0)) =
     hd (snd (episodes col_series ! 0)) # []" by code_simp
  have h3: "ep_path (hd (snd (episodes col_series ! 0))) = ''/a/Show/S01E01.mkv''" by code_simp
  have h4: "os_path_exists col_world (ep_path (hd (snd (episodes col_series ! 0))))" by code_simp
  have h5: "''/b/show/S01E01.mkv'' =
      os_path_join (os_path_join ''/b/show'' (ep_rel_dir (hd (snd (episodes col_series ! 0)))))
        (os_path_basename (ep_path (hd (snd (episodes col_series ! 0)))))" by code_simp
  have h6: "os_path_exists col_world ''/b/show/S01E01.mkv''" by code_simp
  have h7: "map_option (\<lambda>st. (tree (fst st), stdout (fst st))) (process_series True col_series (col_world, [])) =
     Some (Dir [(''a'', Dir [(''Show'', Dir [(''S01E01.mkv'', File 62914560 1)])]),
                (''b'', Dir [(''show'', Dir [(''S01E01.mkv'', File 10485760 9),
                                             (''S01E02.mkv'', File 62914560 2),
                                             (''S01E03.mkv'', File 62914560 3)])])],
           [Processing ''Show'' 2, ConsolidatingTo ''/b'' ''show'',
            AbortCollision ''/b/show/S01E01.mkv'', AbortMoveFailed 1 1,
            Moved ''/a/Show/S01E03.mkv'' ''/b/show/S01E03.mkv'',
            CleaningSource ''/a/Show''])" by code_simp
  note t = collision_is_local[OF h1 h2 h4 h5 h6, where execute = True and s = 1 and e = 1
      and rest = "tl (episodes col_series)"]
  show ?thesis
    apply (intro conjI)
            apply (rule h0)
           apply (rule h1)
          apply (rule h2)
         apply (rule h3)
        apply (rule h4)
       apply (rule h5)
      apply (rule h6)
     apply (rule t[THEN conjunct2])
    apply (rule h7)
    done
qed

section \<open>Artifacts\<close>



section \<open>Episode copies and companions\<close>




end
